theory Spec2Isabelle
  imports Complex_Main "HOL-Library.Log_Nat"
begin

section \<open>Ideal gas density calculator: embedding of DensityCalc.py\<close>

text \<open>
  The program computes with Python floats, which are IEEE 754 binary64 numbers. Its code
  is embedded twice, operation for operation:
  \<^item> over \<^typ>\<open>real\<close>, where every operation is exact. This is the reading "in exact
    arithmetic"; it is used for the properties that do not depend on rounding: the guard,
    the unit strings, the algebraic identities between the unit transforms and a scenario
    whose tolerance is far above the rounding error.
  \<^item> over the binary64 numbers \<open>fp\<close>, where every operation rounds to the nearest double,
    overflows to an infinity and underflows to zero. The names of this embedding end in
    \<open>_fp\<close>. It is used wherever the outcome depends on rounding: the division by the
    product Z * R * T, and the round trips through the base unit.

  Unit identifiers are Python strings and stay \<^typ>\<open>string\<close>. An exception is a value on the
  left of a sum.
\<close>

subsection \<open>Exceptions\<close>

datatype py_error = ValueError string | ZeroDivisionError

text \<open>
  Python's \<^verbatim>\<open>a / b\<close> on floats raises when the divisor is zero. Over the reals a product of
  nonzero factors is nonzero; over binary64 it can underflow to zero, see \<open>py_truediv_fp\<close>.
\<close>

definition py_truediv :: "real \<Rightarrow> real \<Rightarrow> py_error + real" where
  "py_truediv a b = (if b = 0 then Inl ZeroDivisionError else Inr (a / b))"

subsection \<open>UnitConverter\<close>

text \<open>
  \<^verbatim>\<open>convert_pressure\<close>: first to the base unit kPa, then from kPa to the target. The
  divisors are nonzero literals, so these divisions cannot raise.
\<close>

definition convert_pressure :: "real \<Rightarrow> string \<Rightarrow> string \<Rightarrow> py_error + real" where
  "convert_pressure value from_unit to_unit =
     (case
        (if from_unit = ''barg'' then Inr (value * 100 + 101.325)
         else if from_unit = ''kg/cm2'' then Inr (value * 98.0665)
         else if from_unit = ''pasig'' then Inr (value * 0.00689476)
         else if from_unit = ''kPa'' then Inr value
         else if from_unit = ''pascal'' then Inr (value / 1000)
         else if from_unit = ''mmH2O'' then Inr (value * 0.00980638)
         else Inl (ValueError (''Unknown pressure unit: '' @ from_unit)))
      of
        Inl e \<Rightarrow> Inl e
      | Inr base_value \<Rightarrow>
         (if to_unit = ''barg'' then Inr ((base_value - 101.325) / 100)
          else if to_unit = ''kg/cm2'' then Inr (base_value / 98.0665)
          else if to_unit = ''pasig'' then Inr (base_value / 0.00689476)
          else if to_unit = ''kPa'' then Inr base_value
          else if to_unit = ''pascal'' then Inr (base_value * 1000)
          else if to_unit = ''mmH2O'' then Inr (base_value / 0.00980638)
          else Inl (ValueError (''Unknown pressure unit: '' @ to_unit))))"

text \<open>\<^verbatim>\<open>convert_temperature\<close>: first to the base unit Kelvin, then to the target.\<close>

definition convert_temperature :: "real \<Rightarrow> string \<Rightarrow> string \<Rightarrow> py_error + real" where
  "convert_temperature value from_unit to_unit =
     (case
        (if from_unit = ''C'' then Inr (value + 273.15)
         else if from_unit = ''F'' then Inr ((value - 32) * (5 / 9) + 273.15)
         else if from_unit = ''K'' then Inr value
         else if from_unit = ''R'' then Inr (value * (5 / 9))
         else Inl (ValueError (''Unknown temperature unit: '' @ from_unit)))
      of
        Inl e \<Rightarrow> Inl e
      | Inr base_value \<Rightarrow>
         (if to_unit = ''C'' then Inr (base_value - 273.15)
          else if to_unit = ''F'' then Inr ((base_value - 273.15) * (9 / 5) + 32)
          else if to_unit = ''K'' then Inr base_value
          else if to_unit = ''R'' then Inr (base_value * (9 / 5))
          else Inl (ValueError (''Unknown temperature unit: '' @ to_unit))))"

text \<open>\<^verbatim>\<open>convert_density\<close>: the identity on equal units, an exception otherwise.\<close>

definition convert_density :: "real \<Rightarrow> string \<Rightarrow> string \<Rightarrow> py_error + real" where
  "convert_density value from_unit to_unit =
     (if from_unit = to_unit then Inr value
      else Inl (ValueError ''Density conversion not implemented for this context.''))"

subsection \<open>The density calculation\<close>

definition UNIVERSAL_GAS_CONSTANT :: real where
  "UNIVERSAL_GAS_CONSTANT = 8.314"

definition pressure_units :: "string list" where
  "pressure_units = [''barg'', ''kg/cm2'', ''pasig'', ''kPa'', ''pascal'', ''mmH2O'']"

definition temp_units :: "string list" where
  "temp_units = [''C'', ''F'', ''K'', ''R'']"

text \<open>The values read from the six input widgets.\<close>

record density_inputs =
  pressure_value :: real
  pressure_unit :: string
  temperature_value :: real
  temperature_unit :: string
  molecular_weight :: real
  compressibility_factor :: real

text \<open>What a successful run displays: the density and the inputs in SI units.\<close>

record density_result =
  res_density :: real
  res_pressure_pa :: real
  res_temperature_k :: real
  res_molecular_weight_kg_mol :: real

text \<open>
  The three ways the button handler ends in \<^verbatim>\<open>st.error\<close>:
  \<^item> \<open>InvalidInput\<close>: the guard on Z and the raw temperature, followed by \<^verbatim>\<open>return\<close>;
  \<^item> \<open>UnitConversionError msg\<close>: the handler \<^verbatim>\<open>except ValueError\<close>, with the message;
  \<^item> \<open>ComputationError e\<close>: the handler \<^verbatim>\<open>except Exception\<close>.
\<close>

datatype app_error = InvalidInput | UnitConversionError string | ComputationError py_error

fun handle_exception :: "py_error \<Rightarrow> app_error" where
  "handle_exception (ValueError msg) = UnitConversionError msg"
| "handle_exception e = ComputationError e"

text \<open>
  The body of \<^verbatim>\<open>density_calculation_app\<close> under the button: guard, conversion of the
  pressure to kPa, of the temperature to K, then the formula.
\<close>

definition density_calculation_app :: "density_inputs \<Rightarrow> app_error + density_result" where
  "density_calculation_app inp =
     (if compressibility_factor inp \<le> 0 \<or> temperature_value inp \<le> 0 then Inl InvalidInput
      else
        case convert_pressure (pressure_value inp) (pressure_unit inp) ''kPa'' of
          Inl e \<Rightarrow> Inl (handle_exception e)
        | Inr pressure_kpa \<Rightarrow>
           (case convert_temperature (temperature_value inp) (temperature_unit inp) ''K'' of
              Inl e \<Rightarrow> Inl (handle_exception e)
            | Inr temperature_k \<Rightarrow>
               (let pressure_pa = pressure_kpa * 1000;
                    molecular_weight_kg_mol = molecular_weight inp / 1000
                in case py_truediv (pressure_pa * molecular_weight_kg_mol)
                          (compressibility_factor inp * UNIVERSAL_GAS_CONSTANT * temperature_k) of
                     Inl e \<Rightarrow> Inl (handle_exception e)
                   | Inr density \<Rightarrow>
                      Inr \<lparr>res_density = density, res_pressure_pa = pressure_pa,
                           res_temperature_k = temperature_k,
                           res_molecular_weight_kg_mol = molecular_weight_kg_mol\<rparr>)))"

text \<open>The values the widgets hold before the user changes anything.\<close>

definition default_inputs :: density_inputs where
  "default_inputs = \<lparr>pressure_value = 100.0, pressure_unit = ''kPa'',
                      temperature_value = 298.15, temperature_unit = ''K'',
                      molecular_weight = 28.01, compressibility_factor = 1.0\<rparr>"

text \<open>The inputs of the scenario "air at 101.325 kPa and 273.15 K".\<close>

definition air_stp :: density_inputs where
  "air_stp = \<lparr>pressure_value = 101.325, pressure_unit = ''kPa'',
              temperature_value = 273.15, temperature_unit = ''K'',
              molecular_weight = 28.97, compressibility_factor = 1\<rparr>"

subsection \<open>Sample inputs\<close>

definition zero_z_unknown_unit :: density_inputs where
  "zero_z_unknown_unit = default_inputs\<lparr>pressure_unit := ''bar'', compressibility_factor := 0\<rparr>"

definition minus_ten_celsius :: density_inputs where
  "minus_ten_celsius = default_inputs\<lparr>temperature_value := - 10, temperature_unit := ''C''\<rparr>"

subsection \<open>Binary64 numbers\<close>

text \<open>
  A double is a finite number, kept as the real number it denotes, an infinity or a NaN.
  The sign of a zero is not kept: Python compares \<^verbatim>\<open>-0.0\<close> and \<^verbatim>\<open>0.0\<close> as equal and raises on
  a division by either.
\<close>

datatype fp = Fin real | PInf | NInf | NaN

text \<open>
  Rounding to the nearest double, ties to even. \<open>fp_exponent x\<close> is the integer e with
  2^e \<le> |x| < 2^(e+1); the doubles around x are the multiples of \<open>fp_quantum x\<close>, which
  is 2^(e - 52) for a normal number and 2^(-1074) for a subnormal one. A result of
  magnitude 2^1024 or more is an infinity.
\<close>

definition pow2 :: "int \<Rightarrow> real" where
  "pow2 e = (if 0 \<le> e then 2 ^ nat e else 1 / 2 ^ nat (- e))"

definition fp_exponent :: "real \<Rightarrow> int" where
  "fp_exponent x =
     (if 1 \<le> \<bar>x\<bar> then bitlen \<lfloor>\<bar>x\<bar>\<rfloor> - 1 else - bitlen (\<lceil>1 / \<bar>x\<bar>\<rceil> - 1))"

definition round_half_even :: "real \<Rightarrow> int" where
  "round_half_even y =
     (let f = \<lfloor>y\<rfloor>; d = y - of_int f
      in if d < 1 / 2 then f else if 1 / 2 < d then f + 1 else if even f then f else f + 1)"

definition fp_quantum :: "real \<Rightarrow> real" where
  "fp_quantum x = pow2 (max (fp_exponent x) (- 1022) - 52)"

definition fp_round :: "real \<Rightarrow> fp" where
  "fp_round x =
     (if x = 0 then Fin 0
      else let q = fp_quantum x; y = of_int (round_half_even (x / q)) * q
           in if 2 ^ 1024 \<le> y then PInf else if y \<le> - (2 ^ 1024) then NInf else Fin y)"

text \<open>The rounded value before the overflow test.\<close>

definition fp_nearest :: "real \<Rightarrow> real" where
  "fp_nearest x = of_int (round_half_even (x / fp_quantum x)) * fp_quantum x"

text \<open>
  The arithmetic of doubles: the exact result, rounded; the IEEE rules on infinities and
  NaN. \<open>fp_div\<close> is the IEEE quotient; the exception Python raises on a zero divisor is in
  \<open>py_truediv_fp\<close>.
\<close>

fun fp_neg :: "fp \<Rightarrow> fp" where
  "fp_neg (Fin x) = Fin (- x)"
| "fp_neg PInf = NInf"
| "fp_neg NInf = PInf"
| "fp_neg NaN = NaN"

fun fp_is_neg :: "fp \<Rightarrow> bool" where
  "fp_is_neg (Fin x) = (x < 0)"
| "fp_is_neg NInf = True"
| "fp_is_neg PInf = False"
| "fp_is_neg NaN = False"

definition fp_signed_inf :: "bool \<Rightarrow> fp" where
  "fp_signed_inf negative = (if negative then NInf else PInf)"

fun fp_add :: "fp \<Rightarrow> fp \<Rightarrow> fp" where
  "fp_add (Fin x) (Fin y) = fp_round (x + y)"
| "fp_add NaN b = NaN"
| "fp_add a NaN = NaN"
| "fp_add PInf NInf = NaN"
| "fp_add NInf PInf = NaN"
| "fp_add PInf b = PInf"
| "fp_add NInf b = NInf"
| "fp_add (Fin x) b = b"

definition fp_sub :: "fp \<Rightarrow> fp \<Rightarrow> fp" where
  "fp_sub a b = fp_add a (fp_neg b)"

fun fp_mul :: "fp \<Rightarrow> fp \<Rightarrow> fp" where
  "fp_mul (Fin x) (Fin y) = fp_round (x * y)"
| "fp_mul NaN b = NaN"
| "fp_mul a NaN = NaN"
| "fp_mul a b =
     (if a = Fin 0 \<or> b = Fin 0 then NaN else fp_signed_inf (fp_is_neg a \<noteq> fp_is_neg b))"

fun fp_div :: "fp \<Rightarrow> fp \<Rightarrow> fp" where
  "fp_div (Fin x) (Fin y) = (if y = 0 then NaN else fp_round (x / y))"
| "fp_div NaN b = NaN"
| "fp_div a NaN = NaN"
| "fp_div (Fin x) b = Fin 0"
| "fp_div a (Fin y) = (if y = 0 then NaN else fp_signed_inf (fp_is_neg a \<noteq> (y < 0)))"
| "fp_div a b = NaN"

text \<open>Python's \<^verbatim>\<open><=\<close> and \<^verbatim>\<open><\<close> on floats: every comparison with a NaN is false.\<close>

fun fp_le :: "fp \<Rightarrow> fp \<Rightarrow> bool" where
  "fp_le (Fin x) (Fin y) = (x \<le> y)"
| "fp_le NaN b = False"
| "fp_le a NaN = False"
| "fp_le NInf b = True"
| "fp_le a PInf = True"
| "fp_le a b = False"

fun fp_lt :: "fp \<Rightarrow> fp \<Rightarrow> bool" where
  "fp_lt (Fin x) (Fin y) = (x < y)"
| "fp_lt NaN b = False"
| "fp_lt a NaN = False"
| "fp_lt PInf b = False"
| "fp_lt a NInf = False"
| "fp_lt a b = True"

text \<open>
  A value of \<open>fp\<close> is a double when rounding leaves it unchanged; the values read from
  the widgets are doubles.
\<close>

definition is_double :: "fp \<Rightarrow> bool" where
  "is_double a = (case a of Fin x \<Rightarrow> fp_round x = Fin x | _ \<Rightarrow> True)"

text \<open>Sign classes that the operations preserve.\<close>

definition fp_nonneg_or_nan :: "fp \<Rightarrow> bool" where
  "fp_nonneg_or_nan a = (a = NaN \<or> fp_le (Fin 0) a)"

definition fp_nonpos_or_nan :: "fp \<Rightarrow> bool" where
  "fp_nonpos_or_nan a = (a = NaN \<or> fp_le a (Fin 0))"

subsection \<open>The code over binary64\<close>

text \<open>
  The same functions, with the operations of doubles. A decimal literal of the source is
  the double nearest to it, \<^verbatim>\<open>5/9\<close> and \<^verbatim>\<open>9/5\<close> are quotients of doubles, and an integer literal
  is converted exactly. In the converters the divisors are nonzero literals, so these
  divisions cannot raise.
\<close>

definition py_truediv_fp :: "fp \<Rightarrow> fp \<Rightarrow> py_error + fp" where
  "py_truediv_fp a b = (if b = Fin 0 then Inl ZeroDivisionError else Inr (fp_div a b))"

definition convert_pressure_fp :: "fp \<Rightarrow> string \<Rightarrow> string \<Rightarrow> py_error + fp" where
  "convert_pressure_fp value from_unit to_unit =
     (case
        (if from_unit = ''barg'' then Inr (fp_add (fp_mul value (Fin 100)) (fp_round 101.325))
         else if from_unit = ''kg/cm2'' then Inr (fp_mul value (fp_round 98.0665))
         else if from_unit = ''pasig'' then Inr (fp_mul value (fp_round 0.00689476))
         else if from_unit = ''kPa'' then Inr value
         else if from_unit = ''pascal'' then Inr (fp_div value (Fin 1000))
         else if from_unit = ''mmH2O'' then Inr (fp_mul value (fp_round 0.00980638))
         else Inl (ValueError (''Unknown pressure unit: '' @ from_unit)))
      of
        Inl e \<Rightarrow> Inl e
      | Inr base_value \<Rightarrow>
         (if to_unit = ''barg'' then Inr (fp_div (fp_sub base_value (fp_round 101.325)) (Fin 100))
          else if to_unit = ''kg/cm2'' then Inr (fp_div base_value (fp_round 98.0665))
          else if to_unit = ''pasig'' then Inr (fp_div base_value (fp_round 0.00689476))
          else if to_unit = ''kPa'' then Inr base_value
          else if to_unit = ''pascal'' then Inr (fp_mul base_value (Fin 1000))
          else if to_unit = ''mmH2O'' then Inr (fp_div base_value (fp_round 0.00980638))
          else Inl (ValueError (''Unknown pressure unit: '' @ to_unit))))"

definition convert_temperature_fp :: "fp \<Rightarrow> string \<Rightarrow> string \<Rightarrow> py_error + fp" where
  "convert_temperature_fp value from_unit to_unit =
     (case
        (if from_unit = ''C'' then Inr (fp_add value (fp_round 273.15))
         else if from_unit = ''F'' then
           Inr (fp_add (fp_mul (fp_sub value (Fin 32)) (fp_div (Fin 5) (Fin 9))) (fp_round 273.15))
         else if from_unit = ''K'' then Inr value
         else if from_unit = ''R'' then Inr (fp_mul value (fp_div (Fin 5) (Fin 9)))
         else Inl (ValueError (''Unknown temperature unit: '' @ from_unit)))
      of
        Inl e \<Rightarrow> Inl e
      | Inr base_value \<Rightarrow>
         (if to_unit = ''C'' then Inr (fp_sub base_value (fp_round 273.15))
          else if to_unit = ''F'' then
            Inr (fp_add (fp_mul (fp_sub base_value (fp_round 273.15)) (fp_div (Fin 9) (Fin 5)))
                   (Fin 32))
          else if to_unit = ''K'' then Inr base_value
          else if to_unit = ''R'' then Inr (fp_mul base_value (fp_div (Fin 9) (Fin 5)))
          else Inl (ValueError (''Unknown temperature unit: '' @ to_unit))))"

definition UNIVERSAL_GAS_CONSTANT_fp :: fp where
  "UNIVERSAL_GAS_CONSTANT_fp = fp_round 8.314"

record density_inputs_fp =
  pressure_value_fp :: fp
  pressure_unit_fp :: string
  temperature_value_fp :: fp
  temperature_unit_fp :: string
  molecular_weight_fp :: fp
  compressibility_factor_fp :: fp

record density_result_fp =
  res_density_fp :: fp
  res_pressure_pa_fp :: fp
  res_temperature_k_fp :: fp
  res_molecular_weight_kg_mol_fp :: fp

definition density_calculation_app_fp :: "density_inputs_fp \<Rightarrow> app_error + density_result_fp" where
  "density_calculation_app_fp inp =
     (if fp_le (compressibility_factor_fp inp) (Fin 0) \<or> fp_le (temperature_value_fp inp) (Fin 0)
      then Inl InvalidInput
      else
        case convert_pressure_fp (pressure_value_fp inp) (pressure_unit_fp inp) ''kPa'' of
          Inl e \<Rightarrow> Inl (handle_exception e)
        | Inr pressure_kpa \<Rightarrow>
           (case convert_temperature_fp (temperature_value_fp inp) (temperature_unit_fp inp) ''K'' of
              Inl e \<Rightarrow> Inl (handle_exception e)
            | Inr temperature_k \<Rightarrow>
               (let pressure_pa = fp_mul pressure_kpa (Fin 1000);
                    molecular_weight_kg_mol = fp_div (molecular_weight_fp inp) (Fin 1000)
                in case py_truediv_fp (fp_mul pressure_pa molecular_weight_kg_mol)
                          (fp_mul (fp_mul (compressibility_factor_fp inp) UNIVERSAL_GAS_CONSTANT_fp)
                             temperature_k) of
                     Inl e \<Rightarrow> Inl (handle_exception e)
                   | Inr density \<Rightarrow>
                      Inr \<lparr>res_density_fp = density, res_pressure_pa_fp = pressure_pa,
                           res_temperature_k_fp = temperature_k,
                           res_molecular_weight_kg_mol_fp = molecular_weight_kg_mol\<rparr>)))"

subsection \<open>Sample inputs over binary64\<close>

text \<open>
  Z and a temperature in Kelvin so small that the product Z * R * T underflows: both are
  the double 2^(-600), about 2.4e-181.
\<close>

definition underflow_inputs :: density_inputs_fp where
  "underflow_inputs = \<lparr>pressure_value_fp = Fin 100, pressure_unit_fp = ''kPa'',
                        temperature_value_fp = Fin (1 / 2 ^ 600), temperature_unit_fp = ''K'',
                        molecular_weight_fp = Fin 28, compressibility_factor_fp = Fin (1 / 2 ^ 600)\<rparr>"

text \<open>The values the widgets hold before the user changes anything, as doubles.\<close>

definition default_inputs_fp :: density_inputs_fp where
  "default_inputs_fp =
     \<lparr>pressure_value_fp = Fin 100, pressure_unit_fp = ''kPa'',
      temperature_value_fp = fp_round 298.15, temperature_unit_fp = ''K'',
      molecular_weight_fp = fp_round 28.01, compressibility_factor_fp = Fin 1\<rparr>"

text \<open>Further inputs: 1 F with Z = 0.5, and a negative molecular weight without and with a
  negative pressure.\<close>

definition one_fahrenheit_fp :: density_inputs_fp where
  "one_fahrenheit_fp =
     \<lparr>pressure_value_fp = Fin 100, pressure_unit_fp = ''kPa'',
      temperature_value_fp = Fin 1, temperature_unit_fp = ''F'',
      molecular_weight_fp = Fin 28, compressibility_factor_fp = Fin (1 / 2 ^ 1)\<rparr>"

definition negative_weight_fp :: density_inputs_fp where
  "negative_weight_fp =
     \<lparr>pressure_value_fp = Fin 100, pressure_unit_fp = ''kPa'',
      temperature_value_fp = Fin 300, temperature_unit_fp = ''K'',
      molecular_weight_fp = Fin (- 28), compressibility_factor_fp = Fin 1\<rparr>"

definition negative_pressure_and_weight_fp :: density_inputs_fp where
  "negative_pressure_and_weight_fp =
     \<lparr>pressure_value_fp = Fin (- 2), pressure_unit_fp = ''barg'',
      temperature_value_fp = Fin 300, temperature_unit_fp = ''K'',
      molecular_weight_fp = Fin (- 28), compressibility_factor_fp = Fin 1\<rparr>"

section \<open>Properties in exact arithmetic\<close>

subsection \<open>Helper facts\<close>

lemma pressure_unit_cases:
  "u \<in> set pressure_units \<longleftrightarrow>
     u = ''barg'' \<or> u = ''kg/cm2'' \<or> u = ''pasig'' \<or> u = ''kPa'' \<or> u = ''pascal'' \<or> u = ''mmH2O''"
  by (simp add: pressure_units_def)

lemma temp_unit_cases:
  "u \<in> set temp_units \<longleftrightarrow> u = ''C'' \<or> u = ''F'' \<or> u = ''K'' \<or> u = ''R''"
  by (simp add: temp_units_def)

lemma pressure_unit_elim:
  assumes "u \<in> set pressure_units"
  obtains "u = ''barg''" | "u = ''kg/cm2''" | "u = ''pasig''" | "u = ''kPa''"
    | "u = ''pascal''" | "u = ''mmH2O''"
  using assms unfolding pressure_unit_cases by (elim disjE)

lemma temp_unit_elim:
  assumes "u \<in> set temp_units"
  obtains "u = ''C''" | "u = ''F''" | "u = ''K''" | "u = ''R''"
  using assms unfolding temp_unit_cases by (elim disjE)

lemma pressure_to_kPa:
  "convert_pressure v ''barg'' ''kPa'' = Inr (v * 100 + 101.325)"
  "convert_pressure v ''kg/cm2'' ''kPa'' = Inr (v * 98.0665)"
  "convert_pressure v ''pasig'' ''kPa'' = Inr (v * 0.00689476)"
  "convert_pressure v ''kPa'' ''kPa'' = Inr v"
  "convert_pressure v ''pascal'' ''kPa'' = Inr (v / 1000)"
  "convert_pressure v ''mmH2O'' ''kPa'' = Inr (v * 0.00980638)"
  by (simp_all add: convert_pressure_def)


lemma temp_to_K:
  "convert_temperature v ''C'' ''K'' = Inr (v + 273.15)"
  "convert_temperature v ''F'' ''K'' = Inr ((v - 32) * (5 / 9) + 273.15)"
  "convert_temperature v ''K'' ''K'' = Inr v"
  "convert_temperature v ''R'' ''K'' = Inr (v * (5 / 9))"
  by (simp_all add: convert_temperature_def)


lemma convert_pressure_unknown_from:
  "f \<notin> set pressure_units \<Longrightarrow>
   convert_pressure v f t = Inl (ValueError (''Unknown pressure unit: '' @ f))"
  by (simp add: convert_pressure_def pressure_unit_cases)

lemma convert_pressure_from_kPa_unknown:
  "t \<notin> set pressure_units \<Longrightarrow>
   convert_pressure b ''kPa'' t = Inl (ValueError (''Unknown pressure unit: '' @ t))"
  by (simp add: convert_pressure_def pressure_unit_cases)

lemma pressure_from_kPa:
  "convert_pressure b ''kPa'' ''barg'' = Inr ((b - 101.325) / 100)"
  "convert_pressure b ''kPa'' ''kg/cm2'' = Inr (b / 98.0665)"
  "convert_pressure b ''kPa'' ''pasig'' = Inr (b / 0.00689476)"
  "convert_pressure b ''kPa'' ''kPa'' = Inr (b)"
  "convert_pressure b ''kPa'' ''pascal'' = Inr (b * 1000)"
  "convert_pressure b ''kPa'' ''mmH2O'' = Inr (b / 0.00980638)"
  by (simp_all add: convert_pressure_def)

lemma convert_pressure_from_kPa_known:
  assumes "t \<in> set pressure_units"
  shows "\<exists>w. convert_pressure b ''kPa'' t = Inr w"
  using assms
proof (cases rule: pressure_unit_elim)
  case 1
  show ?thesis unfolding 1 by (rule exI, rule pressure_from_kPa(1))
next
  case 2
  show ?thesis unfolding 2 by (rule exI, rule pressure_from_kPa(2))
next
  case 3
  show ?thesis unfolding 3 by (rule exI, rule pressure_from_kPa(3))
next
  case 4
  show ?thesis unfolding 4 by (rule exI, rule pressure_from_kPa(4))
next
  case 5
  show ?thesis unfolding 5 by (rule exI, rule pressure_from_kPa(5))
next
  case 6
  show ?thesis unfolding 6 by (rule exI, rule pressure_from_kPa(6))
qed

lemma convert_pressure_via_kPa:
  assumes "f \<in> set pressure_units"
  shows "\<exists>b. convert_pressure v f t = convert_pressure b ''kPa'' t"
  using assms
proof (cases rule: pressure_unit_elim)
  case 1
  have eq: "convert_pressure v ''barg'' t = convert_pressure (v * 100 + 101.325) ''kPa'' t"
    by (simp add: convert_pressure_def split del: if_split)
  show ?thesis unfolding 1 by (rule exI, rule eq)
next
  case 2
  have eq: "convert_pressure v ''kg/cm2'' t = convert_pressure (v * 98.0665) ''kPa'' t"
    by (simp add: convert_pressure_def split del: if_split)
  show ?thesis unfolding 2 by (rule exI, rule eq)
next
  case 3
  have eq: "convert_pressure v ''pasig'' t = convert_pressure (v * 0.00689476) ''kPa'' t"
    by (simp add: convert_pressure_def split del: if_split)
  show ?thesis unfolding 3 by (rule exI, rule eq)
next
  case 4
  have eq: "convert_pressure v ''kPa'' t = convert_pressure (v) ''kPa'' t"
    by (simp add: convert_pressure_def split del: if_split)
  show ?thesis unfolding 4 by (rule exI, rule eq)
next
  case 5
  have eq: "convert_pressure v ''pascal'' t = convert_pressure (v / 1000) ''kPa'' t"
    by (simp add: convert_pressure_def split del: if_split)
  show ?thesis unfolding 5 by (rule exI, rule eq)
next
  case 6
  have eq: "convert_pressure v ''mmH2O'' t = convert_pressure (v * 0.00980638) ''kPa'' t"
    by (simp add: convert_pressure_def split del: if_split)
  show ?thesis unfolding 6 by (rule exI, rule eq)
qed

lemma app_after_guard:
  assumes "0 < compressibility_factor inp" and "0 < temperature_value inp"
    and "convert_pressure (pressure_value inp) (pressure_unit inp) ''kPa'' = Inr pk"
    and "convert_temperature (temperature_value inp) (temperature_unit inp) ''K'' = Inr tk"
    and "0 < tk"
  shows "density_calculation_app inp =
           Inr \<lparr>res_density = (pk * 1000 * (molecular_weight inp / 1000)) /
                                (compressibility_factor inp * UNIVERSAL_GAS_CONSTANT * tk),
                res_pressure_pa = pk * 1000,
                res_temperature_k = tk,
                res_molecular_weight_kg_mol = molecular_weight inp / 1000\<rparr>"
proof -
  have guard: "\<not> (compressibility_factor inp \<le> 0 \<or> temperature_value inp \<le> 0)"
    using assms(1,2) by simp
  have "compressibility_factor inp * UNIVERSAL_GAS_CONSTANT * tk \<noteq> 0"
    using assms(1,5) by (simp add: UNIVERSAL_GAS_CONSTANT_def)
  then have div: "py_truediv (pk * 1000 * (molecular_weight inp / 1000))
                    (compressibility_factor inp * UNIVERSAL_GAS_CONSTANT * tk) =
                  Inr ((pk * 1000 * (molecular_weight inp / 1000)) /
                       (compressibility_factor inp * UNIVERSAL_GAS_CONSTANT * tk))"
    by (simp only: py_truediv_def if_False)
  show ?thesis
    using guard
    by (simp only: density_calculation_app_def Let_def assms(3) assms(4) div sum.case if_False)
qed

subsection \<open>The guard on Z and the raw temperature\<close>

text \<open>
  C2. Whenever the compressibility factor is \<le> 0 or the raw temperature value (in its own
  unit) is \<le> 0, the run ends with InvalidInput, whatever the units are: the guard comes
  before both conversions, so not even an unknown unit is reported. In particular Z = 0
  fails, and a temperature value of -10 fails in every unit.
\<close>

theorem invalid_input_guard:
  assumes "compressibility_factor inp \<le> 0 \<or> temperature_value inp \<le> 0"
  shows "density_calculation_app inp = Inl InvalidInput"
  using assms by (simp only: density_calculation_app_def if_True)

theorem invalid_input_guard_witness:
  "(compressibility_factor zero_z_unknown_unit \<le> 0 \<or> temperature_value zero_z_unknown_unit \<le> 0) \<and>
   compressibility_factor zero_z_unknown_unit = 0 \<and>
   pressure_unit zero_z_unknown_unit \<notin> set pressure_units \<and>
   density_calculation_app zero_z_unknown_unit = Inl InvalidInput \<and>
   (compressibility_factor minus_ten_celsius \<le> 0 \<or> temperature_value minus_ten_celsius \<le> 0) \<and>
   temperature_value minus_ten_celsius = - 10 \<and>
   density_calculation_app minus_ten_celsius = Inl InvalidInput"
proof -
  have z: "compressibility_factor zero_z_unknown_unit = 0"
    by (simp add: zero_z_unknown_unit_def default_inputs_def)
  then have h1: "compressibility_factor zero_z_unknown_unit \<le> 0 \<or> temperature_value zero_z_unknown_unit \<le> 0"
    by simp
  have u: "pressure_unit zero_z_unknown_unit \<notin> set pressure_units"
    by (simp add: zero_z_unknown_unit_def default_inputs_def pressure_units_def)
  have t: "temperature_value minus_ten_celsius = - 10"
    by (simp add: minus_ten_celsius_def default_inputs_def)
  then have h2: "compressibility_factor minus_ten_celsius \<le> 0 \<or> temperature_value minus_ten_celsius \<le> 0"
    by simp
  show ?thesis
    by (intro conjI h1 z u t h2 invalid_input_guard [OF h1] invalid_input_guard [OF h2])
qed

subsection \<open>Round trips through the base unit\<close>





subsection \<open>Density conversion\<close>

text \<open>
  C8. convert_density returns its value unchanged when the two units are equal, for any
  unit strings at all, and raises the "not implemented" ValueError for every pair of
  distinct units.
\<close>

theorem convert_density_identity_or_error:
  "convert_density v from_unit to_unit =
     (if from_unit = to_unit then Inr v
      else Inl (ValueError ''Density conversion not implemented for this context.''))"
  by (simp only: convert_density_def)

theorem convert_density_identity_or_error_witness:
  "convert_density 7 ''furlong'' ''furlong'' = Inr 7 \<and>
   convert_density 7 ''kg/m3'' ''lb/ft3'' =
     Inl (ValueError ''Density conversion not implemented for this context.'')"
  using convert_density_identity_or_error [of 7 "''furlong''" "''furlong''"]
    convert_density_identity_or_error [of 7 "''kg/m3''" "''lb/ft3''"]
  by simp

subsection \<open>Fixed points of the temperature converter\<close>

text \<open>
  C9. 0 C is 273.15 K, 32 F is 0 C, and 273.15 K is 491.67 R.
\<close>

theorem temperature_fixed_points:
  "convert_temperature 0 ''C'' ''K'' = Inr 273.15 \<and>
   convert_temperature 32 ''F'' ''C'' = Inr 0 \<and>
   convert_temperature 273.15 ''K'' ''R'' = Inr 491.67"
  by (simp add: convert_temperature_def)

subsection \<open>Unknown pressure units\<close>

text \<open>
  C6. convert_pressure raises exactly when from_unit or to_unit is not one of the six
  supported units, and what it raises is the ValueError "Unknown pressure unit: u" for the
  first offending unit u (from_unit is looked at first). In particular 'bar' is unknown.
\<close>

theorem convert_pressure_unknown_unit:
  "((\<exists>e. convert_pressure v from_unit to_unit = Inl e) \<longleftrightarrow>
      from_unit \<notin> set pressure_units \<or> to_unit \<notin> set pressure_units) \<and>
   (from_unit \<notin> set pressure_units \<longrightarrow>
      convert_pressure v from_unit to_unit =
        Inl (ValueError (''Unknown pressure unit: '' @ from_unit))) \<and>
   (from_unit \<in> set pressure_units \<longrightarrow> to_unit \<notin> set pressure_units \<longrightarrow>
      convert_pressure v from_unit to_unit =
        Inl (ValueError (''Unknown pressure unit: '' @ to_unit)))"
proof (cases "from_unit \<in> set pressure_units")
  case False
  then have "convert_pressure v from_unit to_unit =
               Inl (ValueError (''Unknown pressure unit: '' @ from_unit))"
    by (rule convert_pressure_unknown_from)
  with False show ?thesis by simp
next
  case True
  from convert_pressure_via_kPa [OF True]
  obtain b where b: "convert_pressure v from_unit to_unit = convert_pressure b ''kPa'' to_unit"
    by (rule exE)
  show ?thesis
  proof (cases "to_unit \<in> set pressure_units")
    case False
    then have "convert_pressure b ''kPa'' to_unit =
                 Inl (ValueError (''Unknown pressure unit: '' @ to_unit))"
      by (rule convert_pressure_from_kPa_unknown)
    with b True False show ?thesis by simp
  next
    case yes: True
    from convert_pressure_from_kPa_known [OF yes]
    obtain w where "convert_pressure b ''kPa'' to_unit = Inr w"
      by (rule exE)
    with b True yes show ?thesis by simp
  qed
qed

theorem convert_pressure_unknown_unit_witness:
  "''bar'' \<notin> set pressure_units \<and> ''kPa'' \<in> set pressure_units \<and>
   convert_pressure 1 ''bar'' ''kPa'' = Inl (ValueError ''Unknown pressure unit: bar'') \<and>
   convert_pressure 1 ''kPa'' ''bar'' = Inl (ValueError ''Unknown pressure unit: bar'') \<and>
   (\<exists>e. convert_pressure 1 ''bar'' ''kPa'' = Inl e)"
proof -
  have h1: "''bar'' \<notin> set pressure_units" and h2: "''kPa'' \<in> set pressure_units"
    by (simp_all add: pressure_units_def)
  from convert_pressure_unknown_unit [of 1 "''bar''" "''kPa''"] h1
  have a: "convert_pressure 1 ''bar'' ''kPa'' = Inl (ValueError ''Unknown pressure unit: bar'')"
    and c: "\<exists>e. convert_pressure 1 ''bar'' ''kPa'' = Inl e"
    by simp_all
  from convert_pressure_unknown_unit [of 1 "''kPa''" "''bar''"] h1 h2
  have b: "convert_pressure 1 ''kPa'' ''bar'' = Inl (ValueError ''Unknown pressure unit: bar'')"
    by simp
  show ?thesis by (intro conjI h1 h2 a b c)
qed

subsection \<open>The scenario "air at 101.325 kPa and 273.15 K"\<close>

lemma air_stp_result:
  "density_calculation_app air_stp =
     Inr \<lparr>res_density = (101.325 * 1000 * (28.97 / 1000)) / (1 * 8.314 * 273.15),
          res_pressure_pa = 101.325 * 1000,
          res_temperature_k = 273.15,
          res_molecular_weight_kg_mol = 28.97 / 1000\<rparr>"
proof -
  have z: "0 < compressibility_factor air_stp" and t: "0 < temperature_value air_stp"
    by (simp_all add: air_stp_def)
  have pk: "convert_pressure (pressure_value air_stp) (pressure_unit air_stp) ''kPa'' = Inr 101.325"
    by (simp add: air_stp_def pressure_to_kPa)
  have tk: "convert_temperature (temperature_value air_stp) (temperature_unit air_stp) ''K'' = Inr 273.15"
    by (simp add: air_stp_def temp_to_K)
  have pos: "(0::real) < 273.15"
    by simp
  have mw: "molecular_weight air_stp = 28.97" and z1: "compressibility_factor air_stp = 1"
    by (simp_all add: air_stp_def)
  show ?thesis
    by (rule app_after_guard [OF z t pk tk pos, unfolded UNIVERSAL_GAS_CONSTANT_def mw z1])
qed

text \<open>
  C7, as amended. On P = 101.325 kPa, T = 273.15 K, MW = 28.97 g/mol, Z = 1 the run
  returns a density within 1e-3 of 1.2926 kg/m3.
\<close>

theorem air_stp_density:
  "\<exists>r. density_calculation_app air_stp = Inr r \<and> \<bar>res_density r - 1.2926\<bar> \<le> 0.001"
proof (rule exI, rule conjI)
  show "density_calculation_app air_stp =
     Inr \<lparr>res_density = (101.325 * 1000 * (28.97 / 1000)) / (1 * 8.314 * 273.15),
          res_pressure_pa = 101.325 * 1000,
          res_temperature_k = 273.15,
          res_molecular_weight_kg_mol = 28.97 / 1000\<rparr>"
    by (rule air_stp_result)
  show "\<bar>res_density \<lparr>res_density = (101.325 * 1000 * (28.97 / 1000)) / (1 * 8.314 * 273.15),
          res_pressure_pa = 101.325 * 1000,
          res_temperature_k = 273.15,
          res_molecular_weight_kg_mol = 28.97 / 1000\<rparr> - 1.2926\<bar> \<le> 0.001"
    by simp
qed

text \<open>
  The value the specification expects for this scenario, 1.2754 kg/m3, is further than
  1e-3 from the density the formula gives (about 1.29257).
\<close>

theorem air_stp_density_counterexample:
  "density_calculation_app air_stp =
     Inr \<lparr>res_density = (101.325 * 1000 * (28.97 / 1000)) / (1 * 8.314 * 273.15),
          res_pressure_pa = 101.325 * 1000,
          res_temperature_k = 273.15,
          res_molecular_weight_kg_mol = 28.97 / 1000\<rparr> \<and>
   \<not> \<bar>(101.325 * 1000 * (28.97 / 1000)) / (1 * 8.314 * 273.15) - 1.2754\<bar> \<le> (0.001 :: real)"
proof (rule conjI)
  show "\<not> \<bar>(101.325 * 1000 * (28.97 / 1000)) / (1 * 8.314 * 273.15) - 1.2754\<bar> \<le> (0.001 :: real)"
    by simp
qed (rule air_stp_result)

section \<open>Rounding to the nearest double\<close>

subsection \<open>Powers of two and the exponent\<close>

lemma pow2_powr: "pow2 e = 2 powr (real_of_int e)"
  by (simp add: pow2_def powr_int)

lemma pow2_pos: "0 < pow2 e"
  by (simp add: pow2_powr)

lemma pow2_add: "pow2 (a + b) = pow2 a * pow2 b"
  by (simp add: pow2_powr powr_add)

lemma pow2_mono: "a \<le> b \<Longrightarrow> pow2 a \<le> pow2 b"
  by (simp add: pow2_powr)

lemma pow2_strict_mono: "a < b \<Longrightarrow> pow2 a < pow2 b"
  by (simp add: pow2_powr)

lemma pow2_nat: "0 \<le> e \<Longrightarrow> pow2 e = 2 ^ nat e"
  by (simp add: pow2_def)

lemma pow2_neg: "0 \<le> e \<Longrightarrow> pow2 (- e) = 1 / 2 ^ nat e"
  by (simp add: pow2_def)

lemma fp_exponent_bounds:
  assumes "x \<noteq> 0"
  shows "pow2 (fp_exponent x) \<le> \<bar>x\<bar>" and "\<bar>x\<bar> < pow2 (fp_exponent x + 1)"
proof -
  have "pow2 (fp_exponent x) \<le> \<bar>x\<bar> \<and> \<bar>x\<bar> < pow2 (fp_exponent x + 1)"
  proof (cases "1 \<le> \<bar>x\<bar>")
    case True
    define n where "n = \<lfloor>\<bar>x\<bar>\<rfloor>"
    have n: "0 < n" using True by (simp add: n_def)
    have e: "fp_exponent x = bitlen n - 1"
      using True by (simp add: fp_exponent_def n_def)
    from bitlen_bounds [OF n]
    have lo: "2 ^ nat (bitlen n - 1) \<le> n" and hi: "n < 2 ^ nat (bitlen n)" by simp_all
    have b1: "1 \<le> bitlen n" using n by (simp add: bitlen_alt_def)
    have "pow2 (bitlen n - 1) = 2 ^ nat (bitlen n - 1)"
      using b1 by (simp add: pow2_nat)
    also have "\<dots> = real_of_int (2 ^ nat (bitlen n - 1))" by simp
    also have "\<dots> \<le> real_of_int n" using lo by (simp only: of_int_le_iff)
    also have "\<dots> \<le> \<bar>x\<bar>" by (simp add: n_def)
    finally have A: "pow2 (fp_exponent x) \<le> \<bar>x\<bar>" by (simp only: e)
    have "n + 1 \<le> 2 ^ nat (bitlen n)" using hi by simp
    then have "real_of_int (n + 1) \<le> real_of_int (2 ^ nat (bitlen n))"
      by (simp only: of_int_le_iff)
    moreover have "\<bar>x\<bar> < real_of_int (n + 1)" by (simp add: n_def)
    ultimately have "\<bar>x\<bar> < 2 ^ nat (bitlen n)" by simp
    also have "\<dots> = pow2 (bitlen n)" using b1 by (simp add: pow2_nat)
    finally have B: "\<bar>x\<bar> < pow2 (fp_exponent x + 1)" by (simp add: e)
    from A B show ?thesis ..
  next
    case False
    define y where "y = 1 / \<bar>x\<bar>"
    define n where "n = \<lceil>y\<rceil> - 1"
    have xpos: "0 < \<bar>x\<bar>" using assms by simp
    have y1: "1 < y" using False xpos by (simp add: y_def)
    have n: "0 < n" using y1 by (simp add: n_def less_ceiling_iff)
    have ny: "real_of_int n < y" by (simp add: n_def) linarith
    have yn: "y \<le> real_of_int (n + 1)" by (simp add: n_def)
    have e: "fp_exponent x = - bitlen n"
      using False by (simp add: fp_exponent_def n_def y_def)
    from bitlen_bounds [OF n]
    have lo: "2 ^ nat (bitlen n - 1) \<le> n" and hi: "n < 2 ^ nat (bitlen n)" by simp_all
    have b1: "1 \<le> bitlen n" using n by (simp add: bitlen_alt_def)
    have x_eq: "\<bar>x\<bar> = 1 / y" using xpos by (simp add: y_def)
    have "n + 1 \<le> 2 ^ nat (bitlen n)" using hi by simp
    then have "real_of_int (n + 1) \<le> real_of_int (2 ^ nat (bitlen n))"
      by (simp only: of_int_le_iff)
    with yn have "y \<le> 2 ^ nat (bitlen n)" by simp
    then have "1 / 2 ^ nat (bitlen n) \<le> 1 / y"
      using y1 by (simp add: frac_le)
    moreover have "pow2 (- bitlen n) = 1 / 2 ^ nat (bitlen n)"
      using b1 by (simp add: pow2_neg)
    ultimately have A: "pow2 (fp_exponent x) \<le> \<bar>x\<bar>" by (simp add: e x_eq)
    have "real_of_int (2 ^ nat (bitlen n - 1)) \<le> real_of_int n"
      using lo by (simp only: of_int_le_iff)
    moreover have "real_of_int (2 ^ nat (bitlen n - 1)) = 2 ^ nat (bitlen n - 1)" by simp
    ultimately have "2 ^ nat (bitlen n - 1) < y" using ny by linarith
    then have "1 / y < 1 / 2 ^ nat (bitlen n - 1)"
      by (simp add: frac_less2)
    moreover have "pow2 (- (bitlen n - 1)) = 1 / 2 ^ nat (bitlen n - 1)"
      using b1 by (intro pow2_neg) simp
    ultimately have "\<bar>x\<bar> < pow2 (- (bitlen n - 1))" by (simp add: x_eq)
    then have B: "\<bar>x\<bar> < pow2 (fp_exponent x + 1)" by (simp add: e)
    from A B show ?thesis ..
  qed
  then show "pow2 (fp_exponent x) \<le> \<bar>x\<bar>" and "\<bar>x\<bar> < pow2 (fp_exponent x + 1)" by simp_all
qed

lemma fp_exponent_eqI:
  assumes "pow2 e \<le> \<bar>x\<bar>" and "\<bar>x\<bar> < pow2 (e + 1)"
  shows "fp_exponent x = e"
proof -
  have "x \<noteq> 0" using assms(1) pow2_pos [of e] by auto
  note b = fp_exponent_bounds [OF this]
  have "\<not> fp_exponent x < e"
  proof
    assume "fp_exponent x < e"
    then have "pow2 (fp_exponent x + 1) \<le> pow2 e" by (simp add: pow2_mono)
    with b(2) assms(1) show False by simp
  qed
  moreover have "\<not> e < fp_exponent x"
  proof
    assume "e < fp_exponent x"
    then have "pow2 (e + 1) \<le> pow2 (fp_exponent x)" by (simp add: pow2_mono)
    with b(1) assms(2) show False by simp
  qed
  ultimately show ?thesis by simp
qed

subsection \<open>Error and sign of a rounding\<close>

lemma round_half_even_eqI:
  assumes "\<bar>y - of_int m\<bar> < 1 / 2"
  shows "round_half_even y = m"
proof (cases "of_int m \<le> y")
  case True
  then have f: "\<lfloor>y\<rfloor> = m" using assms by (intro floor_unique) auto
  show ?thesis using assms True by (simp add: round_half_even_def f Let_def)
next
  case False
  then have f: "\<lfloor>y\<rfloor> = m - 1" using assms by (intro floor_unique) auto
  show ?thesis using assms False by (simp add: round_half_even_def f Let_def)
qed

lemma round_half_even_close: "\<bar>of_int (round_half_even y) - y\<bar> \<le> 1 / 2"
proof -
  have "of_int \<lfloor>y\<rfloor> \<le> y" and "y < of_int \<lfloor>y\<rfloor> + 1" by linarith+
  then show ?thesis by (auto simp: round_half_even_def Let_def)
qed

lemma round_half_even_nonneg: "0 \<le> y \<Longrightarrow> 0 \<le> round_half_even y"
  by (auto simp: round_half_even_def Let_def)

lemma round_half_even_nonpos: "y \<le> 0 \<Longrightarrow> round_half_even y \<le> 0"
proof -
  assume y: "y \<le> 0"
  have c: "\<bar>of_int (round_half_even y) - y\<bar> \<le> 1 / 2" by (rule round_half_even_close)
  have "real_of_int (round_half_even y) < 1" using c y by linarith
  then show ?thesis by linarith
qed

lemma fp_quantum_pos: "0 < fp_quantum x"
  by (simp add: fp_quantum_def pow2_pos)

lemma fp_quantum_bound:
  assumes "x \<noteq> 0"
  shows "fp_quantum x / 2 \<le> \<bar>x\<bar> / 2 ^ 53 + 1 / 2 ^ 1075"
proof (cases "- 1022 \<le> fp_exponent x")
  case True
  then have "fp_quantum x = pow2 (fp_exponent x + (- 52))"
    by (simp add: fp_quantum_def max_def)
  also have "\<dots> = pow2 (fp_exponent x) * pow2 (- 52)" by (rule pow2_add)
  also have "pow2 (- 52) = 1 / 2 ^ 52" by (simp add: pow2_def)
  finally have "fp_quantum x / 2 = pow2 (fp_exponent x) / 2 ^ 53" by simp
  also have "\<dots> \<le> \<bar>x\<bar> / 2 ^ 53"
    using fp_exponent_bounds(1) [OF assms] by (simp add: divide_right_mono)
  finally show ?thesis by simp
next
  case False
  then have "fp_quantum x = pow2 (- 1074)"
    by (simp add: fp_quantum_def max_def)
  also have "\<dots> = 1 / 2 ^ 1074" by (simp add: pow2_def)
  finally have "fp_quantum x / 2 = 1 / 2 ^ 1075" by simp
  then show ?thesis by simp
qed

lemma fp_round_alt:
  "fp_round x =
     (if x = 0 then Fin 0
      else if 2 ^ 1024 \<le> fp_nearest x then PInf
      else if fp_nearest x \<le> - (2 ^ 1024) then NInf
      else Fin (fp_nearest x))"
  by (simp add: fp_round_def fp_nearest_def Let_def)

lemma fp_nearest_close:
  assumes "x \<noteq> 0"
  shows "\<bar>fp_nearest x - x\<bar> \<le> \<bar>x\<bar> / 2 ^ 53 + 1 / 2 ^ 1075"
proof -
  let ?q = "fp_quantum x"
  let ?k = "real_of_int (round_half_even (x / ?q))"
  have q: "0 < ?q" by (rule fp_quantum_pos)
  have "\<bar>?k - x / ?q\<bar> \<le> 1 / 2" by (rule round_half_even_close)
  then have "\<bar>?k - x / ?q\<bar> * ?q \<le> 1 / 2 * ?q"
    using q by (intro mult_right_mono) simp_all
  moreover have "\<bar>?k - x / ?q\<bar> * ?q = \<bar>?k * ?q - x\<bar>"
  proof -
    have "\<bar>?k - x / ?q\<bar> * ?q = \<bar>(?k - x / ?q) * ?q\<bar>"
      using q by (simp add: abs_mult)
    also have "(?k - x / ?q) * ?q = ?k * ?q - x"
      using q by (simp add: field_simps)
    finally show ?thesis .
  qed
  ultimately have "\<bar>fp_nearest x - x\<bar> \<le> ?q / 2"
    by (simp add: fp_nearest_def)
  with fp_quantum_bound [OF assms] show ?thesis by linarith
qed

lemma fp_nearest_nonneg: "0 \<le> x \<Longrightarrow> 0 \<le> fp_nearest x"
  using fp_quantum_pos [of x]
  by (simp add: fp_nearest_def round_half_even_nonneg)

lemma fp_nearest_nonpos: "x \<le> 0 \<Longrightarrow> fp_nearest x \<le> 0"
  using fp_quantum_pos [of x]
  by (simp add: fp_nearest_def round_half_even_nonpos mult_le_0_iff divide_le_0_iff)

lemma fp_round_not_NaN: "fp_round x \<noteq> NaN"
  by (simp add: fp_round_alt)

lemma fp_round_Fin_close:
  assumes "fp_round x = Fin y"
  shows "\<bar>y - x\<bar> \<le> \<bar>x\<bar> / 2 ^ 53 + 1 / 2 ^ 1075"
proof (cases "x = 0")
  case True
  with assms show ?thesis by (simp add: fp_round_alt)
next
  case False
  with assms have "y = fp_nearest x"
    by (simp add: fp_round_alt split: if_splits)
  with fp_nearest_close [OF False] show ?thesis by simp
qed

lemma fp_round_PInf_pos:
  assumes "fp_round x = PInf"
  shows "0 < x"
proof (rule ccontr)
  assume "\<not> 0 < x"
  then have "fp_nearest x \<le> 0" by (intro fp_nearest_nonpos) simp
  then have "\<not> 2 ^ 1024 \<le> fp_nearest x" by simp
  with assms show False by (simp add: fp_round_alt split: if_splits)
qed

lemma fp_round_NInf_neg:
  assumes "fp_round x = NInf"
  shows "x < 0"
proof (rule ccontr)
  assume "\<not> x < 0"
  then have "0 \<le> fp_nearest x" by (intro fp_nearest_nonneg) simp
  then have "\<not> fp_nearest x \<le> - (2 ^ 1024)" by simp
  with assms show False by (simp add: fp_round_alt split: if_splits)
qed

lemma fp_round_Fin_nonneg:
  assumes "fp_round x = Fin y" and "0 \<le> x"
  shows "0 \<le> y"
proof (cases "x = 0")
  case True
  with assms show ?thesis by (simp add: fp_round_alt)
next
  case False
  with assms have "y = fp_nearest x"
    by (simp add: fp_round_alt split: if_splits)
  with fp_nearest_nonneg [OF assms(2)] show ?thesis by simp
qed

lemma fp_round_Fin_nonpos:
  assumes "fp_round x = Fin y" and "x \<le> 0"
  shows "y \<le> 0"
proof (cases "x = 0")
  case True
  with assms show ?thesis by (simp add: fp_round_alt)
next
  case False
  with assms have "y = fp_nearest x"
    by (simp add: fp_round_alt split: if_splits)
  with fp_nearest_nonpos [OF assms(2)] show ?thesis by simp
qed

lemma fp_pos_cases:
  assumes "fp_lt (Fin 0) a"
  obtains "a = PInf" | t where "a = Fin t" and "0 < t"
  using assms by (cases a) simp_all

lemma fp_pos_not_le: "fp_lt (Fin 0) a \<Longrightarrow> \<not> fp_le a (Fin 0)"
  by (cases a) simp_all

lemma fp_round_NInf_bound:
  assumes "fp_round x = NInf"
  shows "x \<le> - (2 ^ 1023)"
proof -
  have neg: "x < 0" using assms by (rule fp_round_NInf_neg)
  then have x: "x \<noteq> 0" by simp
  from assms x have n: "fp_nearest x \<le> - (2 ^ 1024)"
    by (simp add: fp_round_alt split: if_splits)
  from fp_nearest_close [OF x] have "x - fp_nearest x \<le> \<bar>x\<bar> / 2 ^ 53 + 1 / 2 ^ 1075"
    by linarith
  with n neg show ?thesis by simp
qed

lemma fp_round_pos:
  assumes "11 / (10 * 2 ^ 1075) \<le> x"
  shows "fp_lt (Fin 0) (fp_round x)"
proof (cases "fp_round x")
  case (Fin y)
  have xpos: "0 < x" using assms by (rule less_le_trans [rotated]) simp
  from fp_round_Fin_close [OF Fin] have "x - y \<le> \<bar>x\<bar> / 2 ^ 53 + 1 / 2 ^ 1075"
    by linarith
  with assms xpos have "0 < y" by simp
  with Fin show ?thesis by simp
next
  case PInf
  then show ?thesis by simp
next
  case NInf
  from fp_round_NInf_neg [OF NInf] assms show ?thesis
    by (simp add: not_le [symmetric] order_trans [rotated])
next
  case NaN
  with fp_round_not_NaN show ?thesis by simp
qed

lemma fp_round_lower:
  assumes "L \<le> x" and "L \<le> 0" and "fp_round x = Fin y"
  shows "L * (1 + 1 / 2 ^ 53) - 1 / 2 ^ 1075 \<le> y"
proof -
  from fp_round_Fin_close [OF assms(3)] have c: "x - y \<le> \<bar>x\<bar> / 2 ^ 53 + 1 / 2 ^ 1075"
    by linarith
  show ?thesis
  proof (cases "0 \<le> x")
    case True
    with c assms(2) show ?thesis by simp
  next
    case False
    with c assms(1) show ?thesis by simp
  qed
qed

lemma is_double_pos_least:
  assumes "is_double (Fin t)" and "0 < t"
  shows "1 / 2 ^ 1074 \<le> t"
proof -
  from assms(1) have r: "fp_round t = Fin t" by (simp add: is_double_def)
  have t0: "t \<noteq> 0" using assms(2) by simp
  with r have n: "fp_nearest t = t" by (simp add: fp_round_alt split: if_splits)
  let ?q = "fp_quantum t"
  let ?k = "round_half_even (t / ?q)"
  have q: "0 < ?q" by (rule fp_quantum_pos)
  have kq: "real_of_int ?k * ?q = t" using n by (simp add: fp_nearest_def)
  have "\<not> real_of_int ?k \<le> 0"
  proof
    assume "real_of_int ?k \<le> 0"
    then have "real_of_int ?k * ?q \<le> 0"
      using q by (simp add: mult_le_0_iff)
    with kq assms(2) show False by simp
  qed
  then have "1 \<le> ?k" by simp
  then have "1 \<le> real_of_int ?k" by simp
  then have "1 * ?q \<le> real_of_int ?k * ?q"
    using q by (intro mult_right_mono) simp_all
  then have "?q \<le> t" by (simp add: kq)
  moreover have "pow2 (- 1074) \<le> ?q"
    unfolding fp_quantum_def by (rule pow2_mono) simp
  moreover have "pow2 (- 1074) = 1 / 2 ^ 1074" by (simp add: pow2_def)
  ultimately show ?thesis by simp
qed

lemma fp_round_nonneg: "0 \<le> x \<Longrightarrow> fp_nonneg_or_nan (fp_round x)"
proof (cases "fp_round x")
  case (Fin y)
  assume "0 \<le> x"
  with fp_round_Fin_nonneg [OF Fin] show ?thesis by (simp add: fp_nonneg_or_nan_def Fin)
next
  case NInf
  assume "0 \<le> x"
  with fp_round_NInf_neg [OF NInf] show ?thesis by simp
qed (simp_all add: fp_nonneg_or_nan_def)

lemma fp_round_nonpos: "x \<le> 0 \<Longrightarrow> fp_nonpos_or_nan (fp_round x)"
proof (cases "fp_round x")
  case (Fin y)
  assume "x \<le> 0"
  with fp_round_Fin_nonpos [OF Fin] show ?thesis by (simp add: fp_nonpos_or_nan_def Fin)
next
  case PInf
  assume "x \<le> 0"
  with fp_round_PInf_pos [OF PInf] show ?thesis by simp
qed (simp_all add: fp_nonpos_or_nan_def)

lemma fp_pos_nonneg: "fp_lt (Fin 0) a \<Longrightarrow> fp_nonneg_or_nan a"
  by (cases a) (simp_all add: fp_nonneg_or_nan_def)

lemma fp_le_nonneg: "fp_le (Fin 0) a \<Longrightarrow> fp_nonneg_or_nan a"
  by (simp add: fp_nonneg_or_nan_def)

lemma fp_le_nonpos: "fp_le a (Fin 0) \<Longrightarrow> fp_nonpos_or_nan a"
  by (simp add: fp_nonpos_or_nan_def)

lemma fp_lt_nonpos: "fp_lt a (Fin 0) \<Longrightarrow> fp_nonpos_or_nan a"
  by (cases a) (simp_all add: fp_nonpos_or_nan_def)

lemma fp_mul_signs:
  "fp_nonneg_or_nan a \<Longrightarrow> fp_nonneg_or_nan b \<Longrightarrow> fp_nonneg_or_nan (fp_mul a b)"
  "fp_nonneg_or_nan a \<Longrightarrow> fp_nonpos_or_nan b \<Longrightarrow> fp_nonpos_or_nan (fp_mul a b)"
  "fp_nonpos_or_nan a \<Longrightarrow> fp_nonneg_or_nan b \<Longrightarrow> fp_nonpos_or_nan (fp_mul a b)"
  "fp_nonpos_or_nan a \<Longrightarrow> fp_nonpos_or_nan b \<Longrightarrow> fp_nonneg_or_nan (fp_mul a b)"
proof -
  show "fp_nonneg_or_nan a \<Longrightarrow> fp_nonneg_or_nan b \<Longrightarrow> fp_nonneg_or_nan (fp_mul a b)"
  proof (cases a; cases b)
    fix x y assume "a = Fin x" "b = Fin y" "fp_nonneg_or_nan a" "fp_nonneg_or_nan b"
    then have "0 \<le> x * y" by (simp add: fp_nonneg_or_nan_def)
    then have "fp_nonneg_or_nan (fp_round (x * y))" by (rule fp_round_nonneg)
    then show ?thesis by (simp add: \<open>a = Fin x\<close> \<open>b = Fin y\<close>)
  qed (auto simp: fp_nonneg_or_nan_def fp_signed_inf_def)
  show "fp_nonneg_or_nan a \<Longrightarrow> fp_nonpos_or_nan b \<Longrightarrow> fp_nonpos_or_nan (fp_mul a b)"
  proof (cases a; cases b)
    fix x y assume "a = Fin x" "b = Fin y" "fp_nonneg_or_nan a" "fp_nonpos_or_nan b"
    then have "x * y \<le> 0" by (simp add: fp_nonneg_or_nan_def fp_nonpos_or_nan_def mult_le_0_iff)
    then have "fp_nonpos_or_nan (fp_round (x * y))" by (rule fp_round_nonpos)
    then show ?thesis by (simp add: \<open>a = Fin x\<close> \<open>b = Fin y\<close>)
  qed (auto simp: fp_nonneg_or_nan_def fp_nonpos_or_nan_def fp_signed_inf_def)
  show "fp_nonpos_or_nan a \<Longrightarrow> fp_nonneg_or_nan b \<Longrightarrow> fp_nonpos_or_nan (fp_mul a b)"
  proof (cases a; cases b)
    fix x y assume "a = Fin x" "b = Fin y" "fp_nonpos_or_nan a" "fp_nonneg_or_nan b"
    then have "x * y \<le> 0" by (simp add: fp_nonneg_or_nan_def fp_nonpos_or_nan_def mult_le_0_iff)
    then have "fp_nonpos_or_nan (fp_round (x * y))" by (rule fp_round_nonpos)
    then show ?thesis by (simp add: \<open>a = Fin x\<close> \<open>b = Fin y\<close>)
  qed (auto simp: fp_nonneg_or_nan_def fp_nonpos_or_nan_def fp_signed_inf_def)
  show "fp_nonpos_or_nan a \<Longrightarrow> fp_nonpos_or_nan b \<Longrightarrow> fp_nonneg_or_nan (fp_mul a b)"
  proof (cases a; cases b)
    fix x y assume "a = Fin x" "b = Fin y" "fp_nonpos_or_nan a" "fp_nonpos_or_nan b"
    then have "0 \<le> x * y" by (simp add: fp_nonpos_or_nan_def zero_le_mult_iff)
    then have "fp_nonneg_or_nan (fp_round (x * y))" by (rule fp_round_nonneg)
    then show ?thesis by (simp add: \<open>a = Fin x\<close> \<open>b = Fin y\<close>)
  qed (auto simp: fp_nonneg_or_nan_def fp_nonpos_or_nan_def fp_signed_inf_def)
qed

lemma fp_div_signs:
  "fp_nonneg_or_nan a \<Longrightarrow> fp_nonneg_or_nan b \<Longrightarrow> fp_nonneg_or_nan (fp_div a b)"
  "fp_nonpos_or_nan a \<Longrightarrow> fp_nonneg_or_nan b \<Longrightarrow> fp_nonpos_or_nan (fp_div a b)"
proof -
  show "fp_nonneg_or_nan a \<Longrightarrow> fp_nonneg_or_nan b \<Longrightarrow> fp_nonneg_or_nan (fp_div a b)"
  proof (cases a; cases b)
    fix x y assume *: "a = Fin x" "b = Fin y" "fp_nonneg_or_nan a" "fp_nonneg_or_nan b"
    then have "0 \<le> x / y" by (simp add: fp_nonneg_or_nan_def)
    then have "fp_nonneg_or_nan (fp_round (x / y))" by (rule fp_round_nonneg)
    then show ?thesis by (simp add: * fp_nonneg_or_nan_def)
  qed (auto simp: fp_nonneg_or_nan_def fp_signed_inf_def)
  show "fp_nonpos_or_nan a \<Longrightarrow> fp_nonneg_or_nan b \<Longrightarrow> fp_nonpos_or_nan (fp_div a b)"
  proof (cases a; cases b)
    fix x y assume *: "a = Fin x" "b = Fin y" "fp_nonpos_or_nan a" "fp_nonneg_or_nan b"
    then have "x / y \<le> 0"
      by (simp add: fp_nonneg_or_nan_def fp_nonpos_or_nan_def divide_le_0_iff)
    then have "fp_nonpos_or_nan (fp_round (x / y))" by (rule fp_round_nonpos)
    then show ?thesis by (simp add: * fp_nonpos_or_nan_def)
  qed (auto simp: fp_nonneg_or_nan_def fp_nonpos_or_nan_def fp_signed_inf_def)
qed

subsection \<open>Evaluating a rounding\<close>

text \<open>
  The double nearest to x is m * q as soon as q is the spacing of the doubles around x and
  x is less than half a spacing away from m * q. With e, q and m given, the premises are
  inequalities between rational numbers.
\<close>

lemma fp_round_eqI:
  assumes lo: "pow2 e \<le> \<bar>x\<bar>" and hi: "\<bar>x\<bar> < pow2 (e + 1)"
    and q: "q = pow2 (max e (- 1022) - 52)"
    and near: "\<bar>x - of_int m * q\<bar> < q / 2"
    and fin: "\<bar>of_int m * q\<bar> < 2 ^ 1024"
  shows "fp_round x = Fin (of_int m * q)"
proof -
  have x: "x \<noteq> 0" using lo pow2_pos [of e] by auto
  have e: "fp_exponent x = e" using lo hi by (rule fp_exponent_eqI)
  have fq: "fp_quantum x = q" by (simp add: fp_quantum_def e q)
  have qpos: "0 < q" by (simp add: q pow2_pos)
  have "\<bar>x / q - of_int m\<bar> * q = \<bar>(x / q - of_int m) * q\<bar>"
    using qpos by (simp add: abs_mult)
  also have "(x / q - of_int m) * q = x - of_int m * q"
    using qpos by (simp add: field_simps)
  finally have "\<bar>x / q - of_int m\<bar> * q < 1 / 2 * q" using near by simp
  then have "\<bar>x / q - of_int m\<bar> < 1 / 2"
    using qpos by (simp only: mult_less_cancel_right_pos)
  then have "round_half_even (x / q) = m" by (rule round_half_even_eqI)
  then have n: "fp_nearest x = of_int m * q" by (simp add: fp_nearest_def fq)
  from fin have "\<not> 2 ^ 1024 \<le> of_int m * q" and "\<not> of_int m * q \<le> - (2 ^ 1024)"
    by linarith+
  then show ?thesis using x by (simp add: fp_round_alt n)
qed

lemma fp_round_underflow:
  assumes "\<bar>x\<bar> < 1 / 2 ^ 1075"
  shows "fp_round x = Fin 0"
proof (cases "x = 0")
  case True
  then show ?thesis by (simp add: fp_round_alt)
next
  case False
  have "pow2 (fp_exponent x) \<le> \<bar>x\<bar>" by (rule fp_exponent_bounds(1) [OF False])
  also have "\<bar>x\<bar> < pow2 (- 1075)" using assms by (simp add: pow2_def)
  finally have "fp_exponent x < - 1075"
    using pow2_mono [of "- 1075" "fp_exponent x"] by (cases "fp_exponent x < - 1075") auto
  then have fq: "fp_quantum x = 1 / 2 ^ 1074"
    by (simp add: fp_quantum_def max_def pow2_def)
  have "\<bar>x / fp_quantum x - of_int 0\<bar> < 1 / 2"
    using assms by (simp add: fq)
  then have "round_half_even (x / fp_quantum x) = 0" by (rule round_half_even_eqI)
  then have "fp_nearest x = 0" by (simp add: fp_nearest_def)
  then show ?thesis using False by (simp add: fp_round_alt)
qed

section \<open>Properties over binary64\<close>

subsection \<open>The literals of the source\<close>

lemma fl_273_15: "fp_round 273.15 = Fin (2402652809016115 / 2 ^ 43)"
  using fp_round_eqI [of "8" "273.15" "1 / 2 ^ 44" "4805305618032230"]
  by (simp add: pow2_def)

lemma fl_5_9: "fp_round (5 / 9) = Fin (2501999792983609 / 2 ^ 52)"
  using fp_round_eqI [of "- 1" "5 / 9" "1 / 2 ^ 53" "5003999585967218"]
  by (simp add: pow2_def)

lemma fl_9_5: "fp_round (9 / 5) = Fin (8106479329266893 / 2 ^ 52)"
  using fp_round_eqI [of "0" "9 / 5" "1 / 2 ^ 52" "8106479329266893"]
  by (simp add: pow2_def)

lemma fl_101_325: "fp_round 101.325 = Fin (7130113003801805 / 2 ^ 46)"
  using fp_round_eqI [of "6" "101.325" "1 / 2 ^ 46" "7130113003801805"]
  by (simp add: pow2_def)

lemma fl_8_314: "fp_round 8.314 = Fin (1170091478186197 / 2 ^ 47)"
  using fp_round_eqI [of "3" "8.314" "1 / 2 ^ 49" "4680365912744788"]
  by (simp add: pow2_def)

lemma fl_98_0665: "fp_round 98.0665 = Fin (6900816450898887 / 2 ^ 46)"
  using fp_round_eqI [of "6" "98.0665" "1 / 2 ^ 46" "6900816450898887"]
  by (simp add: pow2_def)

lemma fl_0_00689476: "fp_round 0.00689476 = Fin (31051238566809 / 2 ^ 52)"
  using fp_round_eqI [of "- 8" "0.00689476" "1 / 2 ^ 60" "7949117073103104"]
  by (simp add: pow2_def)

lemma fl_0_00980638: "fp_round 0.00980638 = Fin (2826496596086623 / 2 ^ 58)"
  using fp_round_eqI [of "- 7" "0.00980638" "1 / 2 ^ 59" "5652993192173246"]
  by (simp add: pow2_def)

lemma five_ninths_fp: "fp_div (Fin 5) (Fin 9) = Fin (2501999792983609 / 2 ^ 52)"
  by (simp only: fp_div.simps fl_5_9) simp

subsection \<open>The converters\<close>

lemma temp_to_K_fp:
  "convert_temperature_fp v ''C'' ''K'' = Inr (fp_add v (fp_round 273.15))"
  "convert_temperature_fp v ''F'' ''K'' =
     Inr (fp_add (fp_mul (fp_sub v (Fin 32)) (fp_div (Fin 5) (Fin 9))) (fp_round 273.15))"
  "convert_temperature_fp v ''K'' ''K'' = Inr v"
  "convert_temperature_fp v ''R'' ''K'' = Inr (fp_mul v (fp_div (Fin 5) (Fin 9)))"
  by (simp_all add: convert_temperature_fp_def)

lemma pressure_to_kPa_fp:
  "convert_pressure_fp v ''barg'' ''kPa'' = Inr (fp_add (fp_mul v (Fin 100)) (fp_round 101.325))"
  "convert_pressure_fp v ''kg/cm2'' ''kPa'' = Inr (fp_mul v (fp_round 98.0665))"
  "convert_pressure_fp v ''pasig'' ''kPa'' = Inr (fp_mul v (fp_round 0.00689476))"
  "convert_pressure_fp v ''kPa'' ''kPa'' = Inr v"
  "convert_pressure_fp v ''pascal'' ''kPa'' = Inr (fp_div v (Fin 1000))"
  "convert_pressure_fp v ''mmH2O'' ''kPa'' = Inr (fp_mul v (fp_round 0.00980638))"
  by (simp_all add: convert_pressure_fp_def)

lemma pressure_known_to_kPa_fp:
  assumes "u \<in> set pressure_units"
  obtains pk where "convert_pressure_fp v u ''kPa'' = Inr pk"
  using assms
proof (cases rule: pressure_unit_elim)
  case 1 show thesis by (rule that, unfold 1, rule pressure_to_kPa_fp(1))
next
  case 2 show thesis by (rule that, unfold 2, rule pressure_to_kPa_fp(2))
next
  case 3 show thesis by (rule that, unfold 3, rule pressure_to_kPa_fp(3))
next
  case 4 show thesis by (rule that, unfold 4, rule pressure_to_kPa_fp(4))
next
  case 5 show thesis by (rule that, unfold 5, rule pressure_to_kPa_fp(5))
next
  case 6 show thesis by (rule that, unfold 6, rule pressure_to_kPa_fp(6))
qed

lemma fp_add_pos_const:
  assumes "fp_lt (Fin 0) a" and "0 < c"  and "11 / (10 * 2 ^ 1075) \<le> c"
  shows "fp_lt (Fin 0) (fp_add a (Fin c))"
  using assms(1)
proof (cases rule: fp_pos_cases)
  case 1
  then show ?thesis by simp
next
  case (2 t)
  have "11 / (10 * 2 ^ 1075) \<le> t + c" using assms(3) 2(2) by linarith
  then have "fp_lt (Fin 0) (fp_round (t + c))" by (rule fp_round_pos)
  then show ?thesis unfolding 2(1) by (simp only: fp_add.simps)
qed

lemma kelvin_positive_fp:
  assumes "u \<in> set temp_units" and "is_double v" and "fp_lt (Fin 0) v"
  obtains tk where "convert_temperature_fp v u ''K'' = Inr tk" and "fp_lt (Fin 0) tk"
  using assms(1)
proof (cases rule: temp_unit_elim)
  case 1
  have "fp_lt (Fin 0) (fp_add v (Fin (2402652809016115 / 2 ^ 43)))"
    using assms(3) by (rule fp_add_pos_const) simp_all
  then have pos: "fp_lt (Fin 0) (fp_add v (fp_round 273.15))" by (simp only: fl_273_15)
  show thesis by (rule that [OF _ pos], unfold 1, rule temp_to_K_fp(1))
next
  case 2
  let ?k = "2501999792983609 / 2 ^ 52 :: real"
  let ?c = "2402652809016115 / 2 ^ 43 :: real"
  have b: "fp_lt (Fin (- 20)) (fp_mul (fp_sub v (Fin 32)) (Fin ?k)) \<and>
           fp_mul (fp_sub v (Fin 32)) (Fin ?k) \<noteq> NInf"
    using assms(3)
  proof (cases rule: fp_pos_cases)
    case 1
    then show ?thesis by (simp add: fp_sub_def fp_signed_inf_def)
  next
    case (2 t)
    have sub: "fp_sub v (Fin 32) = fp_round (t - 32)" by (simp add: 2(1) fp_sub_def)
    show ?thesis
    proof (cases "fp_round (t - 32)")
      case (Fin a)
      have lo: "- 32 \<le> t - 32" using 2(2) by simp
      from fp_round_lower [OF lo _ Fin] have a: "- 33 \<le> a" by simp
      have mul: "fp_mul (fp_sub v (Fin 32)) (Fin ?k) = fp_round (a * ?k)"
        by (simp only: sub Fin fp_mul.simps)
      have ak: "- 19 \<le> a * ?k" using a by simp
      show ?thesis
      proof (cases "fp_round (a * ?k)")
        case (Fin b)
        from fp_round_lower [OF ak _ Fin] have "- 20 < b" by simp
        then show ?thesis unfolding mul Fin by simp
      next
        case PInf
        show ?thesis unfolding mul PInf by simp
      next
        case NInf
        from fp_round_NInf_bound [OF NInf] ak show ?thesis by simp
      next
        case NaN
        with fp_round_not_NaN show ?thesis by simp
      qed
    next
      case PInf
      show ?thesis unfolding sub PInf by (simp add: fp_signed_inf_def)
    next
      case NInf
      from fp_round_NInf_bound [OF NInf] 2(2) show ?thesis by simp
    next
      case NaN
      with fp_round_not_NaN show ?thesis by simp
    qed
  qed
  have "fp_lt (Fin 0) (fp_add (fp_mul (fp_sub v (Fin 32)) (Fin ?k)) (Fin ?c))"
  proof (cases "fp_mul (fp_sub v (Fin 32)) (Fin ?k)")
    case (Fin b)
    with b have "- 20 < b" by simp
    then have "11 / (10 * 2 ^ 1075) \<le> b + ?c" by simp
    then have "fp_lt (Fin 0) (fp_round (b + ?c))" by (rule fp_round_pos)
    then show ?thesis unfolding Fin by (simp only: fp_add.simps)
  next
    case PInf
    then show ?thesis by simp
  next
    case NInf
    with b show ?thesis by simp
  next
    case NaN
    with b show ?thesis by simp
  qed
  then have pos: "fp_lt (Fin 0)
      (fp_add (fp_mul (fp_sub v (Fin 32)) (fp_div (Fin 5) (Fin 9))) (fp_round 273.15))"
    by (simp only: five_ninths_fp fl_273_15)
  show thesis by (rule that [OF _ pos], unfold 2, rule temp_to_K_fp(2))
next
  case 3
  show thesis by (rule that [OF _ assms(3)], unfold 3, rule temp_to_K_fp(3))
next
  case 4
  let ?k = "2501999792983609 / 2 ^ 52 :: real"
  have "fp_lt (Fin 0) (fp_mul v (Fin ?k))"
    using assms(3)
  proof (cases rule: fp_pos_cases)
    case 1
    then show ?thesis by (simp add: fp_signed_inf_def)
  next
    case (2 t)
    from assms(2) 2 have "1 / 2 ^ 1074 \<le> t" by (intro is_double_pos_least) simp_all
    then have "11 / (10 * 2 ^ 1075) \<le> t * ?k" by simp
    then have "fp_lt (Fin 0) (fp_round (t * ?k))" by (rule fp_round_pos)
    then show ?thesis unfolding 2(1) by (simp only: fp_mul.simps)
  qed
  then have pos: "fp_lt (Fin 0) (fp_mul v (fp_div (Fin 5) (Fin 9)))"
    by (simp only: five_ninths_fp)
  show thesis by (rule that [OF _ pos], unfold 4, rule temp_to_K_fp(4))
qed

lemma temp_known_to_K_fp:
  assumes "u \<in> set temp_units"
  obtains tk where "convert_temperature_fp v u ''K'' = Inr tk"
  using assms
proof (cases rule: temp_unit_elim)
  case 1 show thesis by (rule that, unfold 1, rule temp_to_K_fp(1))
next
  case 2 show thesis by (rule that, unfold 2, rule temp_to_K_fp(2))
next
  case 3 show thesis by (rule that, unfold 3, rule temp_to_K_fp(3))
next
  case 4 show thesis by (rule that, unfold 4, rule temp_to_K_fp(4))
qed



subsection \<open>The handler after the guard\<close>

lemma app_fp_after_guard:
  assumes "fp_lt (Fin 0) (compressibility_factor_fp inp)"
    and "fp_lt (Fin 0) (temperature_value_fp inp)"
    and "convert_pressure_fp (pressure_value_fp inp) (pressure_unit_fp inp) ''kPa'' = Inr pk"
    and "convert_temperature_fp (temperature_value_fp inp) (temperature_unit_fp inp) ''K'' = Inr tk"
  shows "density_calculation_app_fp inp =
           (if fp_mul (fp_mul (compressibility_factor_fp inp) (fp_round 8.314)) tk = Fin 0
            then Inl (ComputationError ZeroDivisionError)
            else Inr \<lparr>res_density_fp =
                        fp_div (fp_mul (fp_mul pk (Fin 1000)) (fp_div (molecular_weight_fp inp) (Fin 1000)))
                          (fp_mul (fp_mul (compressibility_factor_fp inp) (fp_round 8.314)) tk),
                      res_pressure_pa_fp = fp_mul pk (Fin 1000),
                      res_temperature_k_fp = tk,
                      res_molecular_weight_kg_mol_fp = fp_div (molecular_weight_fp inp) (Fin 1000)\<rparr>)"
proof -
  have guard: "\<not> (fp_le (compressibility_factor_fp inp) (Fin 0) \<or>
                   fp_le (temperature_value_fp inp) (Fin 0))"
    using assms(1,2) by (simp add: fp_pos_not_le)
  show ?thesis
  proof (cases "fp_mul (fp_mul (compressibility_factor_fp inp) (fp_round 8.314)) tk = Fin 0")
    case True
    show ?thesis
      using guard
      by (simp only: density_calculation_app_fp_def Let_def assms(3) assms(4) py_truediv_fp_def
            UNIVERSAL_GAS_CONSTANT_fp_def True sum.case if_True if_False handle_exception.simps
            simp_thms)
  next
    case False
    show ?thesis
      using guard
      by (simp only: density_calculation_app_fp_def Let_def assms(3) assms(4) py_truediv_fp_def
            UNIVERSAL_GAS_CONSTANT_fp_def False sum.case if_False)
  qed
qed

lemma app_fp_unknown_pressure:
  assumes "fp_lt (Fin 0) (compressibility_factor_fp inp)"
    and "fp_lt (Fin 0) (temperature_value_fp inp)"
    and "pressure_unit_fp inp \<notin> set pressure_units"
  shows "density_calculation_app_fp inp =
           Inl (UnitConversionError (''Unknown pressure unit: '' @ pressure_unit_fp inp))"
proof -
  have guard: "\<not> (fp_le (compressibility_factor_fp inp) (Fin 0) \<or>
                   fp_le (temperature_value_fp inp) (Fin 0))"
    using assms(1,2) by (simp add: fp_pos_not_le)
  have cp: "convert_pressure_fp (pressure_value_fp inp) (pressure_unit_fp inp) ''kPa'' =
              Inl (ValueError (''Unknown pressure unit: '' @ pressure_unit_fp inp))"
    using assms(3) by (simp add: convert_pressure_fp_def pressure_unit_cases)
  show ?thesis
    using guard
    by (simp only: density_calculation_app_fp_def cp sum.case if_False handle_exception.simps)
qed

subsection \<open>The runs on the sample inputs\<close>

text \<open>Each run is evaluated operation by operation; every step is one rounding.\<close>

lemma fl_uf_1: "fp_round 100 = Fin 100"
  using fp_round_eqI [of "6" "100" "1 / 2 ^ 46" "7036874417766400"]
  by (simp add: pow2_def)

lemma fl_uf_2: "fp_round (1 / 2 ^ 600) = Fin (1 / 2 ^ 600)"
  using fp_round_eqI [of "- 600" "1 / 2 ^ 600" "1 / 2 ^ 652" "4503599627370496"]
  by (simp add: pow2_def)

lemma fl_uf_3: "fp_round 28 = Fin 28"
  using fp_round_eqI [of "4" "28" "1 / 2 ^ 48" "7881299347898368"]
  by (simp add: pow2_def)

lemma fl_uf_4: "fp_mul (Fin (1 / 2 ^ 600)) (Fin (1170091478186197 / 2 ^ 47)) = Fin (1170091478186197 / 2 ^ 647)"
  using fp_round_eqI [of "- 597" "(1 / 2 ^ 600) * (1170091478186197 / 2 ^ 47)" "1 / 2 ^ 649" "4680365912744788"]
  by (simp add: pow2_def)

lemma fl_uf_5: "fp_mul (Fin (1170091478186197 / 2 ^ 647)) (Fin (1 / 2 ^ 600)) = Fin 0"
  by (simp add: fp_round_underflow)

lemma fl_uf_6: "fp_mul (Fin 100) (Fin 1000) = Fin 100000"
  using fp_round_eqI [of "16" "100 * 1000" "1 / 2 ^ 36" "6871947673600000"]
  by (simp add: pow2_def)

lemma fl_uf_7: "fp_div (Fin 28) (Fin 1000) = Fin (8070450532247929 / 2 ^ 58)"
  using fp_round_eqI [of "- 6" "28 / 1000" "1 / 2 ^ 58" "8070450532247929"]
  by (simp add: pow2_def)

lemma fl_uf_8: "fp_mul (Fin 100000) (Fin (8070450532247929 / 2 ^ 58)) = Fin 2800"
  using fp_round_eqI [of "11" "100000 * (8070450532247929 / 2 ^ 58)" "1 / 2 ^ 41" "6157265115545600"]
  by (simp add: pow2_def)

lemma underflow_inputs_fields:
  "pressure_value_fp underflow_inputs = Fin 100"
  "pressure_unit_fp underflow_inputs = ''kPa''"
  "temperature_value_fp underflow_inputs = Fin (1 / 2 ^ 600)"
  "temperature_unit_fp underflow_inputs = ''K''"
  "molecular_weight_fp underflow_inputs = Fin 28"
  "compressibility_factor_fp underflow_inputs = Fin (1 / 2 ^ 600)"
  unfolding underflow_inputs_def by (simp_all only: density_inputs_fp.simps )

lemma underflow_inputs_doubles:
  "is_double (pressure_value_fp underflow_inputs)"
  "is_double (temperature_value_fp underflow_inputs)"
  "is_double (molecular_weight_fp underflow_inputs)"
  "is_double (compressibility_factor_fp underflow_inputs)"
  unfolding underflow_inputs_fields is_double_def by (simp_all only: fp.case fl_uf_1 fl_uf_2 fl_uf_3)

lemma underflow_inputs_hyps:
  "pressure_unit_fp underflow_inputs \<in> set pressure_units"
  "temperature_unit_fp underflow_inputs \<in> set temp_units"
  "fp_lt (Fin 0) (compressibility_factor_fp underflow_inputs)"
  "fp_lt (Fin 0) (temperature_value_fp underflow_inputs)"
  unfolding underflow_inputs_fields by (simp_all add: pressure_units_def temp_units_def)

lemma underflow_inputs_pressure:
  "convert_pressure_fp (pressure_value_fp underflow_inputs) (pressure_unit_fp underflow_inputs) ''kPa'' = Inr (Fin 100)"
  unfolding underflow_inputs_fields by (simp only: pressure_to_kPa_fp(4) )

lemma underflow_inputs_temperature:
  "convert_temperature_fp (temperature_value_fp underflow_inputs) (temperature_unit_fp underflow_inputs) ''K'' = Inr (Fin (1 / 2 ^ 600))"
  unfolding underflow_inputs_fields by (simp only: temp_to_K_fp(3) )

lemma underflow_inputs_denominator:
  "fp_mul (fp_mul (compressibility_factor_fp underflow_inputs) (fp_round 8.314)) (Fin (1 / 2 ^ 600)) = Fin 0"
  unfolding underflow_inputs_fields by (simp only: fl_8_314 fl_uf_4 fl_uf_5)

lemma underflow_inputs_run:
  "density_calculation_app_fp underflow_inputs =
     Inl (ComputationError ZeroDivisionError)"
  by (simp only: app_fp_after_guard [OF underflow_inputs_hyps(3,4) underflow_inputs_pressure underflow_inputs_temperature]
        underflow_inputs_denominator if_True simp_thms)

lemma fl_neg_1: "fp_round (- 2) = Fin (- 2)"
  using fp_round_eqI [of "1" "- 2" "1 / 2 ^ 51" "- 4503599627370496"]
  by (simp add: pow2_def)

lemma fl_neg_2: "fp_round 300 = Fin 300"
  using fp_round_eqI [of "8" "300" "1 / 2 ^ 44" "5277655813324800"]
  by (simp add: pow2_def)

lemma fl_neg_3: "fp_round (- 28) = Fin (- 28)"
  using fp_round_eqI [of "4" "- 28" "1 / 2 ^ 48" "- 7881299347898368"]
  by (simp add: pow2_def)

lemma fl_neg_4: "fp_round 1 = Fin 1"
  using fp_round_eqI [of "0" "1" "1 / 2 ^ 52" "4503599627370496"]
  by (simp add: pow2_def)

lemma fl_neg_5: "fp_mul (Fin (- 2)) (Fin 100) = Fin (- 200)"
  using fp_round_eqI [of "7" "(- 2) * 100" "1 / 2 ^ 45" "- 7036874417766400"]
  by (simp add: pow2_def)

lemma fl_neg_6: "fp_add (Fin (- 200)) (Fin (7130113003801805 / 2 ^ 46)) = Fin (- 6943635831730995 / 2 ^ 46)"
  using fp_round_eqI [of "6" "(- 200) + (7130113003801805 / 2 ^ 46)" "1 / 2 ^ 46" "- 6943635831730995"]
  by (simp add: pow2_def)

lemma fl_neg_7: "fp_mul (Fin 1) (Fin (1170091478186197 / 2 ^ 47)) = Fin (1170091478186197 / 2 ^ 47)"
  using fp_round_eqI [of "3" "1 * (1170091478186197 / 2 ^ 47)" "1 / 2 ^ 49" "4680365912744788"]
  by (simp add: pow2_def)

lemma fl_neg_8: "fp_mul (Fin (1170091478186197 / 2 ^ 47)) (Fin 300) = Fin (2742401901998899 / 2 ^ 40)"
  using fp_round_eqI [of "11" "(1170091478186197 / 2 ^ 47) * 300" "1 / 2 ^ 41" "5484803803997798"]
  by (simp add: pow2_def)

lemma fl_neg_9: "fp_mul (Fin (- 6943635831730995 / 2 ^ 46)) (Fin 1000) = Fin (- 98675)"
  using fp_round_eqI [of "16" "(- 6943635831730995 / 2 ^ 46) * 1000" "1 / 2 ^ 36" "- 6780894366924800"]
  by (simp add: pow2_def)

lemma fl_neg_10: "fp_div (Fin (- 28)) (Fin 1000) = Fin (- 8070450532247929 / 2 ^ 58)"
  using fp_round_eqI [of "- 6" "(- 28) / 1000" "1 / 2 ^ 58" "- 8070450532247929"]
  by (simp add: pow2_def)

lemma fl_neg_11: "fp_mul (Fin (- 98675)) (Fin (- 8070450532247929 / 2 ^ 58)) = Fin (6075681352764621 / 2 ^ 41)"
  using fp_round_eqI [of "11" "(- 98675) * (- 8070450532247929 / 2 ^ 58)" "1 / 2 ^ 41" "6075681352764621"]
  by (simp add: pow2_def)

lemma fl_neg_12: "fp_div (Fin (6075681352764621 / 2 ^ 41)) (Fin (2742401901998899 / 2 ^ 40)) = Fin (4988772115492721 / 2 ^ 52)"
  using fp_round_eqI [of "0" "(6075681352764621 / 2 ^ 41) / (2742401901998899 / 2 ^ 40)" "1 / 2 ^ 52" "4988772115492721"]
  by (simp add: pow2_def)

lemma negative_pressure_and_weight_fp_fields:
  "pressure_value_fp negative_pressure_and_weight_fp = Fin (- 2)"
  "pressure_unit_fp negative_pressure_and_weight_fp = ''barg''"
  "temperature_value_fp negative_pressure_and_weight_fp = Fin 300"
  "temperature_unit_fp negative_pressure_and_weight_fp = ''K''"
  "molecular_weight_fp negative_pressure_and_weight_fp = Fin (- 28)"
  "compressibility_factor_fp negative_pressure_and_weight_fp = Fin 1"
  unfolding negative_pressure_and_weight_fp_def by (simp_all only: density_inputs_fp.simps )

lemma negative_pressure_and_weight_fp_doubles:
  "is_double (pressure_value_fp negative_pressure_and_weight_fp)"
  "is_double (temperature_value_fp negative_pressure_and_weight_fp)"
  "is_double (molecular_weight_fp negative_pressure_and_weight_fp)"
  "is_double (compressibility_factor_fp negative_pressure_and_weight_fp)"
  unfolding negative_pressure_and_weight_fp_fields is_double_def by (simp_all only: fp.case fl_neg_1 fl_neg_2 fl_neg_3 fl_neg_4)

lemma negative_pressure_and_weight_fp_hyps:
  "pressure_unit_fp negative_pressure_and_weight_fp \<in> set pressure_units"
  "temperature_unit_fp negative_pressure_and_weight_fp \<in> set temp_units"
  "fp_lt (Fin 0) (compressibility_factor_fp negative_pressure_and_weight_fp)"
  "fp_lt (Fin 0) (temperature_value_fp negative_pressure_and_weight_fp)"
  unfolding negative_pressure_and_weight_fp_fields by (simp_all add: pressure_units_def temp_units_def)

lemma negative_pressure_and_weight_fp_pressure:
  "convert_pressure_fp (pressure_value_fp negative_pressure_and_weight_fp) (pressure_unit_fp negative_pressure_and_weight_fp) ''kPa'' = Inr (Fin (- 6943635831730995 / 2 ^ 46))"
  unfolding negative_pressure_and_weight_fp_fields by (simp only: pressure_to_kPa_fp(1) fl_101_325 fl_neg_5 fl_neg_6)

lemma negative_pressure_and_weight_fp_temperature:
  "convert_temperature_fp (temperature_value_fp negative_pressure_and_weight_fp) (temperature_unit_fp negative_pressure_and_weight_fp) ''K'' = Inr (Fin 300)"
  unfolding negative_pressure_and_weight_fp_fields by (simp only: temp_to_K_fp(3) )

lemma negative_pressure_and_weight_fp_denominator:
  "fp_mul (fp_mul (compressibility_factor_fp negative_pressure_and_weight_fp) (fp_round 8.314)) (Fin 300) = Fin (2742401901998899 / 2 ^ 40)"
  unfolding negative_pressure_and_weight_fp_fields by (simp only: fl_8_314 fl_neg_7 fl_neg_8)

lemma negative_pressure_and_weight_fp_run:
  "density_calculation_app_fp negative_pressure_and_weight_fp =
     Inr \<lparr>res_density_fp = Fin (4988772115492721 / 2 ^ 52),
          res_pressure_pa_fp = Fin (- 98675),
          res_temperature_k_fp = Fin 300,
          res_molecular_weight_kg_mol_fp = Fin (- 8070450532247929 / 2 ^ 58)\<rparr>"
proof -
  note r = app_fp_after_guard [OF negative_pressure_and_weight_fp_hyps(3,4) negative_pressure_and_weight_fp_pressure negative_pressure_and_weight_fp_temperature,
      unfolded negative_pressure_and_weight_fp_denominator negative_pressure_and_weight_fp_fields(5) fl_neg_9 fl_neg_10 fl_neg_11 fl_neg_12]
  then show ?thesis by simp
qed

lemma fl_nw_1: "fp_round 100 = Fin 100"
  using fp_round_eqI [of "6" "100" "1 / 2 ^ 46" "7036874417766400"]
  by (simp add: pow2_def)

lemma fl_nw_2: "fp_round 300 = Fin 300"
  using fp_round_eqI [of "8" "300" "1 / 2 ^ 44" "5277655813324800"]
  by (simp add: pow2_def)

lemma fl_nw_3: "fp_round (- 28) = Fin (- 28)"
  using fp_round_eqI [of "4" "- 28" "1 / 2 ^ 48" "- 7881299347898368"]
  by (simp add: pow2_def)

lemma fl_nw_4: "fp_round 1 = Fin 1"
  using fp_round_eqI [of "0" "1" "1 / 2 ^ 52" "4503599627370496"]
  by (simp add: pow2_def)

lemma fl_nw_5: "fp_mul (Fin 1) (Fin (1170091478186197 / 2 ^ 47)) = Fin (1170091478186197 / 2 ^ 47)"
  using fp_round_eqI [of "3" "1 * (1170091478186197 / 2 ^ 47)" "1 / 2 ^ 49" "4680365912744788"]
  by (simp add: pow2_def)

lemma fl_nw_6: "fp_mul (Fin (1170091478186197 / 2 ^ 47)) (Fin 300) = Fin (2742401901998899 / 2 ^ 40)"
  using fp_round_eqI [of "11" "(1170091478186197 / 2 ^ 47) * 300" "1 / 2 ^ 41" "5484803803997798"]
  by (simp add: pow2_def)

lemma fl_nw_7: "fp_mul (Fin 100) (Fin 1000) = Fin 100000"
  using fp_round_eqI [of "16" "100 * 1000" "1 / 2 ^ 36" "6871947673600000"]
  by (simp add: pow2_def)

lemma fl_nw_8: "fp_div (Fin (- 28)) (Fin 1000) = Fin (- 8070450532247929 / 2 ^ 58)"
  using fp_round_eqI [of "- 6" "(- 28) / 1000" "1 / 2 ^ 58" "- 8070450532247929"]
  by (simp add: pow2_def)

lemma fl_nw_9: "fp_mul (Fin 100000) (Fin (- 8070450532247929 / 2 ^ 58)) = Fin (- 2800)"
  using fp_round_eqI [of "11" "100000 * (- 8070450532247929 / 2 ^ 58)" "1 / 2 ^ 41" "- 6157265115545600"]
  by (simp add: pow2_def)

lemma fl_nw_10: "fp_div (Fin (- 2800)) (Fin (2742401901998899 / 2 ^ 40)) = Fin (- 2527880474027221 / 2 ^ 51)"
  using fp_round_eqI [of "0" "(- 2800) / (2742401901998899 / 2 ^ 40)" "1 / 2 ^ 52" "- 5055760948054442"]
  by (simp add: pow2_def)

lemma negative_weight_fp_fields:
  "pressure_value_fp negative_weight_fp = Fin 100"
  "pressure_unit_fp negative_weight_fp = ''kPa''"
  "temperature_value_fp negative_weight_fp = Fin 300"
  "temperature_unit_fp negative_weight_fp = ''K''"
  "molecular_weight_fp negative_weight_fp = Fin (- 28)"
  "compressibility_factor_fp negative_weight_fp = Fin 1"
  unfolding negative_weight_fp_def by (simp_all only: density_inputs_fp.simps )

lemma negative_weight_fp_doubles:
  "is_double (pressure_value_fp negative_weight_fp)"
  "is_double (temperature_value_fp negative_weight_fp)"
  "is_double (molecular_weight_fp negative_weight_fp)"
  "is_double (compressibility_factor_fp negative_weight_fp)"
  unfolding negative_weight_fp_fields is_double_def by (simp_all only: fp.case fl_nw_1 fl_nw_2 fl_nw_3 fl_nw_4)

lemma negative_weight_fp_hyps:
  "pressure_unit_fp negative_weight_fp \<in> set pressure_units"
  "temperature_unit_fp negative_weight_fp \<in> set temp_units"
  "fp_lt (Fin 0) (compressibility_factor_fp negative_weight_fp)"
  "fp_lt (Fin 0) (temperature_value_fp negative_weight_fp)"
  unfolding negative_weight_fp_fields by (simp_all add: pressure_units_def temp_units_def)

lemma negative_weight_fp_pressure:
  "convert_pressure_fp (pressure_value_fp negative_weight_fp) (pressure_unit_fp negative_weight_fp) ''kPa'' = Inr (Fin 100)"
  unfolding negative_weight_fp_fields by (simp only: pressure_to_kPa_fp(4) )

lemma negative_weight_fp_temperature:
  "convert_temperature_fp (temperature_value_fp negative_weight_fp) (temperature_unit_fp negative_weight_fp) ''K'' = Inr (Fin 300)"
  unfolding negative_weight_fp_fields by (simp only: temp_to_K_fp(3) )

lemma negative_weight_fp_denominator:
  "fp_mul (fp_mul (compressibility_factor_fp negative_weight_fp) (fp_round 8.314)) (Fin 300) = Fin (2742401901998899 / 2 ^ 40)"
  unfolding negative_weight_fp_fields by (simp only: fl_8_314 fl_nw_5 fl_nw_6)

lemma negative_weight_fp_run:
  "density_calculation_app_fp negative_weight_fp =
     Inr \<lparr>res_density_fp = Fin (- 2527880474027221 / 2 ^ 51),
          res_pressure_pa_fp = Fin 100000,
          res_temperature_k_fp = Fin 300,
          res_molecular_weight_kg_mol_fp = Fin (- 8070450532247929 / 2 ^ 58)\<rparr>"
proof -
  note r = app_fp_after_guard [OF negative_weight_fp_hyps(3,4) negative_weight_fp_pressure negative_weight_fp_temperature,
      unfolded negative_weight_fp_denominator negative_weight_fp_fields(5) fl_nw_7 fl_nw_8 fl_nw_9 fl_nw_10]
  then show ?thesis by simp
qed

lemma fl_fahr_1: "fp_round 100 = Fin 100"
  using fp_round_eqI [of "6" "100" "1 / 2 ^ 46" "7036874417766400"]
  by (simp add: pow2_def)

lemma fl_fahr_2: "fp_round 1 = Fin 1"
  using fp_round_eqI [of "0" "1" "1 / 2 ^ 52" "4503599627370496"]
  by (simp add: pow2_def)

lemma fl_fahr_3: "fp_round 28 = Fin 28"
  using fp_round_eqI [of "4" "28" "1 / 2 ^ 48" "7881299347898368"]
  by (simp add: pow2_def)

lemma fl_fahr_4: "fp_round (1 / 2 ^ 1) = Fin (1 / 2 ^ 1)"
  using fp_round_eqI [of "- 1" "1 / 2 ^ 1" "1 / 2 ^ 53" "4503599627370496"]
  by (simp add: pow2_def)

lemma fl_fahr_5: "fp_sub (Fin 1) (Fin 32) = Fin (- 31)"
  using fp_round_eqI [of "4" "1 - 32" "1 / 2 ^ 48" "- 8725724278030336"]
  by (simp add: fp_sub_def pow2_def)

lemma fl_fahr_6: "fp_mul (Fin (- 31)) (Fin (2501999792983609 / 2 ^ 52)) = Fin (- 2423812299452871 / 2 ^ 47)"
  using fp_round_eqI [of "4" "(- 31) * (2501999792983609 / 2 ^ 52)" "1 / 2 ^ 48" "- 4847624598905742"]
  by (simp add: pow2_def)

lemma fl_fahr_7: "fp_add (Fin (- 2423812299452871 / 2 ^ 47)) (Fin (2402652809016115 / 2 ^ 43)) = Fin (4502329080600621 / 2 ^ 44)"
  using fp_round_eqI [of "7" "(- 2423812299452871 / 2 ^ 47) + (2402652809016115 / 2 ^ 43)" "1 / 2 ^ 45" "9004658161201242"]
  by (simp add: pow2_def)

lemma fl_fahr_8: "fp_mul (Fin (1 / 2 ^ 1)) (Fin (1170091478186197 / 2 ^ 47)) = Fin (1170091478186197 / 2 ^ 48)"
  using fp_round_eqI [of "2" "(1 / 2 ^ 1) * (1170091478186197 / 2 ^ 47)" "1 / 2 ^ 50" "4680365912744788"]
  by (simp add: pow2_def)

lemma fl_fahr_9: "fp_mul (Fin (1170091478186197 / 2 ^ 48)) (Fin (4502329080600621 / 2 ^ 44)) = Fin (4679045497014195 / 2 ^ 42)"
  using fp_round_eqI [of "10" "(1170091478186197 / 2 ^ 48) * (4502329080600621 / 2 ^ 44)" "1 / 2 ^ 42" "4679045497014195"]
  by (simp add: pow2_def)

lemma fl_fahr_10: "fp_mul (Fin 100) (Fin 1000) = Fin 100000"
  using fp_round_eqI [of "16" "100 * 1000" "1 / 2 ^ 36" "6871947673600000"]
  by (simp add: pow2_def)

lemma fl_fahr_11: "fp_div (Fin 28) (Fin 1000) = Fin (8070450532247929 / 2 ^ 58)"
  using fp_round_eqI [of "- 6" "28 / 1000" "1 / 2 ^ 58" "8070450532247929"]
  by (simp add: pow2_def)

lemma fl_fahr_12: "fp_mul (Fin 100000) (Fin (8070450532247929 / 2 ^ 58)) = Fin 2800"
  using fp_round_eqI [of "11" "100000 * (8070450532247929 / 2 ^ 58)" "1 / 2 ^ 41" "6157265115545600"]
  by (simp add: pow2_def)

lemma fl_fahr_13: "fp_div (Fin 2800) (Fin (4679045497014195 / 2 ^ 42)) = Fin (1481597950783315 / 2 ^ 49)"
  using fp_round_eqI [of "1" "2800 / (4679045497014195 / 2 ^ 42)" "1 / 2 ^ 51" "5926391803133260"]
  by (simp add: pow2_def)

lemma one_fahrenheit_fp_fields:
  "pressure_value_fp one_fahrenheit_fp = Fin 100"
  "pressure_unit_fp one_fahrenheit_fp = ''kPa''"
  "temperature_value_fp one_fahrenheit_fp = Fin 1"
  "temperature_unit_fp one_fahrenheit_fp = ''F''"
  "molecular_weight_fp one_fahrenheit_fp = Fin 28"
  "compressibility_factor_fp one_fahrenheit_fp = Fin (1 / 2 ^ 1)"
  unfolding one_fahrenheit_fp_def by (simp_all only: density_inputs_fp.simps )

lemma one_fahrenheit_fp_doubles:
  "is_double (pressure_value_fp one_fahrenheit_fp)"
  "is_double (temperature_value_fp one_fahrenheit_fp)"
  "is_double (molecular_weight_fp one_fahrenheit_fp)"
  "is_double (compressibility_factor_fp one_fahrenheit_fp)"
  unfolding one_fahrenheit_fp_fields is_double_def by (simp_all only: fp.case fl_fahr_1 fl_fahr_2 fl_fahr_3 fl_fahr_4)

lemma one_fahrenheit_fp_hyps:
  "pressure_unit_fp one_fahrenheit_fp \<in> set pressure_units"
  "temperature_unit_fp one_fahrenheit_fp \<in> set temp_units"
  "fp_lt (Fin 0) (compressibility_factor_fp one_fahrenheit_fp)"
  "fp_lt (Fin 0) (temperature_value_fp one_fahrenheit_fp)"
  unfolding one_fahrenheit_fp_fields by (simp_all add: pressure_units_def temp_units_def)

lemma one_fahrenheit_fp_pressure:
  "convert_pressure_fp (pressure_value_fp one_fahrenheit_fp) (pressure_unit_fp one_fahrenheit_fp) ''kPa'' = Inr (Fin 100)"
  unfolding one_fahrenheit_fp_fields by (simp only: pressure_to_kPa_fp(4) )

lemma one_fahrenheit_fp_temperature:
  "convert_temperature_fp (temperature_value_fp one_fahrenheit_fp) (temperature_unit_fp one_fahrenheit_fp) ''K'' = Inr (Fin (4502329080600621 / 2 ^ 44))"
  unfolding one_fahrenheit_fp_fields by (simp only: temp_to_K_fp(2) five_ninths_fp fl_273_15 fl_fahr_5 fl_fahr_6 fl_fahr_7)

lemma one_fahrenheit_fp_denominator:
  "fp_mul (fp_mul (compressibility_factor_fp one_fahrenheit_fp) (fp_round 8.314)) (Fin (4502329080600621 / 2 ^ 44)) = Fin (4679045497014195 / 2 ^ 42)"
  unfolding one_fahrenheit_fp_fields by (simp only: fl_8_314 fl_fahr_8 fl_fahr_9)

lemma one_fahrenheit_fp_run:
  "density_calculation_app_fp one_fahrenheit_fp =
     Inr \<lparr>res_density_fp = Fin (1481597950783315 / 2 ^ 49),
          res_pressure_pa_fp = Fin 100000,
          res_temperature_k_fp = Fin (4502329080600621 / 2 ^ 44),
          res_molecular_weight_kg_mol_fp = Fin (8070450532247929 / 2 ^ 58)\<rparr>"
proof -
  note r = app_fp_after_guard [OF one_fahrenheit_fp_hyps(3,4) one_fahrenheit_fp_pressure one_fahrenheit_fp_temperature,
      unfolded one_fahrenheit_fp_denominator one_fahrenheit_fp_fields(5) fl_fahr_10 fl_fahr_11 fl_fahr_12 fl_fahr_13]
  then show ?thesis by simp
qed

lemma fl_dflt_1: "fp_round 100 = Fin 100"
  using fp_round_eqI [of "6" "100" "1 / 2 ^ 46" "7036874417766400"]
  by (simp add: pow2_def)

lemma fl_dflt_2: "fp_round 298.15 = Fin (2622555134571315 / 2 ^ 43)"
  using fp_round_eqI [of "8" "298.15" "1 / 2 ^ 44" "5245110269142630"]
  by (simp add: pow2_def)

lemma fl_dflt_3: "fp_round (2622555134571315 / 2 ^ 43) = Fin (2622555134571315 / 2 ^ 43)"
  using fp_round_eqI [of "8" "2622555134571315 / 2 ^ 43" "1 / 2 ^ 44" "5245110269142630"]
  by (simp add: pow2_def)

lemma fl_dflt_4: "fp_round 28.01 = Fin (7884114097665475 / 2 ^ 48)"
  using fp_round_eqI [of "4" "28.01" "1 / 2 ^ 48" "7884114097665475"]
  by (simp add: pow2_def)

lemma fl_dflt_5: "fp_round (7884114097665475 / 2 ^ 48) = Fin (7884114097665475 / 2 ^ 48)"
  using fp_round_eqI [of "4" "7884114097665475 / 2 ^ 48" "1 / 2 ^ 48" "7884114097665475"]
  by (simp add: pow2_def)

lemma fl_dflt_6: "fp_round 1 = Fin 1"
  using fp_round_eqI [of "0" "1" "1 / 2 ^ 52" "4503599627370496"]
  by (simp add: pow2_def)

lemma fl_dflt_7: "fp_mul (Fin 1) (Fin (1170091478186197 / 2 ^ 47)) = Fin (1170091478186197 / 2 ^ 47)"
  using fp_round_eqI [of "3" "1 * (1170091478186197 / 2 ^ 47)" "1 / 2 ^ 49" "4680365912744788"]
  by (simp add: pow2_def)

lemma fl_dflt_8: "fp_mul (Fin (1170091478186197 / 2 ^ 47)) (Fin (2622555134571315 / 2 ^ 43)) = Fin (2725490423603239 / 2 ^ 40)"
  using fp_round_eqI [of "11" "(1170091478186197 / 2 ^ 47) * (2622555134571315 / 2 ^ 43)" "1 / 2 ^ 41" "5450980847206478"]
  by (simp add: pow2_def)

lemma fl_dflt_9: "fp_mul (Fin 100) (Fin 1000) = Fin 100000"
  using fp_round_eqI [of "16" "100 * 1000" "1 / 2 ^ 36" "6871947673600000"]
  by (simp add: pow2_def)

lemma fl_dflt_10: "fp_div (Fin (7884114097665475 / 2 ^ 48)) (Fin 1000) = Fin (4036666418004723 / 2 ^ 57)"
  using fp_round_eqI [of "- 6" "(7884114097665475 / 2 ^ 48) / 1000" "1 / 2 ^ 58" "8073332836009446"]
  by (simp add: pow2_def)

lemma fl_dflt_11: "fp_mul (Fin 100000) (Fin (4036666418004723 / 2 ^ 57)) = Fin 2801"
  using fp_round_eqI [of "11" "100000 * (4036666418004723 / 2 ^ 57)" "1 / 2 ^ 41" "6159464138801152"]
  by (simp add: pow2_def)

lemma fl_dflt_12: "fp_div (Fin 2801) (Fin (2725490423603239 / 2 ^ 40)) = Fin (5088948425588927 / 2 ^ 52)"
  using fp_round_eqI [of "0" "2801 / (2725490423603239 / 2 ^ 40)" "1 / 2 ^ 52" "5088948425588927"]
  by (simp add: pow2_def)

lemma default_inputs_fp_fields:
  "pressure_value_fp default_inputs_fp = Fin 100"
  "pressure_unit_fp default_inputs_fp = ''kPa''"
  "temperature_value_fp default_inputs_fp = Fin (2622555134571315 / 2 ^ 43)"
  "temperature_unit_fp default_inputs_fp = ''K''"
  "molecular_weight_fp default_inputs_fp = Fin (7884114097665475 / 2 ^ 48)"
  "compressibility_factor_fp default_inputs_fp = Fin 1"
  unfolding default_inputs_fp_def by (simp_all only: density_inputs_fp.simps fl_dflt_2 fl_dflt_4)

lemma default_inputs_fp_doubles:
  "is_double (pressure_value_fp default_inputs_fp)"
  "is_double (temperature_value_fp default_inputs_fp)"
  "is_double (molecular_weight_fp default_inputs_fp)"
  "is_double (compressibility_factor_fp default_inputs_fp)"
  unfolding default_inputs_fp_fields is_double_def by (simp_all only: fp.case fl_dflt_1 fl_dflt_3 fl_dflt_5 fl_dflt_6)

lemma default_inputs_fp_hyps:
  "pressure_unit_fp default_inputs_fp \<in> set pressure_units"
  "temperature_unit_fp default_inputs_fp \<in> set temp_units"
  "fp_lt (Fin 0) (compressibility_factor_fp default_inputs_fp)"
  "fp_lt (Fin 0) (temperature_value_fp default_inputs_fp)"
  unfolding default_inputs_fp_fields by (simp_all add: pressure_units_def temp_units_def)

lemma default_inputs_fp_pressure:
  "convert_pressure_fp (pressure_value_fp default_inputs_fp) (pressure_unit_fp default_inputs_fp) ''kPa'' = Inr (Fin 100)"
  unfolding default_inputs_fp_fields by (simp only: pressure_to_kPa_fp(4) )

lemma default_inputs_fp_temperature:
  "convert_temperature_fp (temperature_value_fp default_inputs_fp) (temperature_unit_fp default_inputs_fp) ''K'' = Inr (Fin (2622555134571315 / 2 ^ 43))"
  unfolding default_inputs_fp_fields by (simp only: temp_to_K_fp(3) )

lemma default_inputs_fp_denominator:
  "fp_mul (fp_mul (compressibility_factor_fp default_inputs_fp) (fp_round 8.314)) (Fin (2622555134571315 / 2 ^ 43)) = Fin (2725490423603239 / 2 ^ 40)"
  unfolding default_inputs_fp_fields by (simp only: fl_8_314 fl_dflt_7 fl_dflt_8)

lemma default_inputs_fp_run:
  "density_calculation_app_fp default_inputs_fp =
     Inr \<lparr>res_density_fp = Fin (5088948425588927 / 2 ^ 52),
          res_pressure_pa_fp = Fin 100000,
          res_temperature_k_fp = Fin (2622555134571315 / 2 ^ 43),
          res_molecular_weight_kg_mol_fp = Fin (4036666418004723 / 2 ^ 57)\<rparr>"
proof -
  note r = app_fp_after_guard [OF default_inputs_fp_hyps(3,4) default_inputs_fp_pressure default_inputs_fp_temperature,
      unfolded default_inputs_fp_denominator default_inputs_fp_fields(5) fl_dflt_9 fl_dflt_10 fl_dflt_11 fl_dflt_12]
  then show ?thesis by simp
qed

subsection \<open>The density formula\<close>

text \<open>
  C1, as amended. Over binary64, with a supported pressure unit and temperature unit,
  Z > 0 and a raw temperature value > 0, both conversions succeed. The run then returns
  the density (pressure_Pa * MW_kg_per_mol) / (Z * 8.314 * temperature_K), every operation
  rounded, where pressure_Pa is the pressure converted to kPa times 1000, temperature_K
  the temperature converted to Kelvin and MW_kg_per_mol the molecular weight over 1000,
  and the result carries these three values; unless the rounded product
  Z * 8.314 * temperature_K is 0.0: then the division raises and the run ends with
  ComputationError ZeroDivisionError.
\<close>

theorem density_formula_binary64:
  assumes "pressure_unit_fp inp \<in> set pressure_units"
    and "temperature_unit_fp inp \<in> set temp_units"
    and "fp_lt (Fin 0) (compressibility_factor_fp inp)"
    and "fp_lt (Fin 0) (temperature_value_fp inp)"
  shows "\<exists>pressure_kPa temperature_K.
           convert_pressure_fp (pressure_value_fp inp) (pressure_unit_fp inp) ''kPa'' = Inr pressure_kPa \<and>
           convert_temperature_fp (temperature_value_fp inp) (temperature_unit_fp inp) ''K'' =
             Inr temperature_K \<and>
           density_calculation_app_fp inp =
             (if fp_mul (fp_mul (compressibility_factor_fp inp) (fp_round 8.314)) temperature_K = Fin 0
              then Inl (ComputationError ZeroDivisionError)
              else Inr \<lparr>res_density_fp =
                          fp_div (fp_mul (fp_mul pressure_kPa (Fin 1000))
                                    (fp_div (molecular_weight_fp inp) (Fin 1000)))
                            (fp_mul (fp_mul (compressibility_factor_fp inp) (fp_round 8.314))
                               temperature_K),
                        res_pressure_pa_fp = fp_mul pressure_kPa (Fin 1000),
                        res_temperature_k_fp = temperature_K,
                        res_molecular_weight_kg_mol_fp = fp_div (molecular_weight_fp inp) (Fin 1000)\<rparr>)"
proof -
  from assms(1) obtain pk
    where pk: "convert_pressure_fp (pressure_value_fp inp) (pressure_unit_fp inp) ''kPa'' = Inr pk"
    by (rule pressure_known_to_kPa_fp)
  from assms(2) obtain tk
    where tk: "convert_temperature_fp (temperature_value_fp inp) (temperature_unit_fp inp) ''K'' = Inr tk"
    by (rule temp_known_to_K_fp)
  note res = app_fp_after_guard [OF assms(3,4) pk tk]
  show ?thesis
    by (intro exI [of _ pk] exI [of _ tk] conjI pk tk res)
qed

theorem density_formula_binary64_witness:
  "pressure_unit_fp default_inputs_fp \<in> set pressure_units \<and>
   temperature_unit_fp default_inputs_fp \<in> set temp_units \<and>
   fp_lt (Fin 0) (compressibility_factor_fp default_inputs_fp) \<and>
   fp_lt (Fin 0) (temperature_value_fp default_inputs_fp) \<and>
   density_calculation_app_fp default_inputs_fp =
     Inr \<lparr>res_density_fp = Fin (5088948425588927 / 2 ^ 52),
          res_pressure_pa_fp = Fin 100000,
          res_temperature_k_fp = Fin (2622555134571315 / 2 ^ 43),
          res_molecular_weight_kg_mol_fp = Fin (4036666418004723 / 2 ^ 57)\<rparr>"
proof -
  from density_formula_binary64 [OF default_inputs_fp_hyps] obtain pk tk
    where pk: "convert_pressure_fp (pressure_value_fp default_inputs_fp) (pressure_unit_fp default_inputs_fp) ''kPa'' = Inr pk"
      and tk: "convert_temperature_fp (temperature_value_fp default_inputs_fp) (temperature_unit_fp default_inputs_fp) ''K'' = Inr tk"
      and res: "density_calculation_app_fp default_inputs_fp =
             (if fp_mul (fp_mul (compressibility_factor_fp default_inputs_fp) (fp_round 8.314)) tk = Fin 0
              then Inl (ComputationError ZeroDivisionError)
              else Inr \<lparr>res_density_fp =
                          fp_div (fp_mul (fp_mul pk (Fin 1000))
                                    (fp_div (molecular_weight_fp default_inputs_fp) (Fin 1000)))
                            (fp_mul (fp_mul (compressibility_factor_fp default_inputs_fp) (fp_round 8.314)) tk),
                        res_pressure_pa_fp = fp_mul pk (Fin 1000),
                        res_temperature_k_fp = tk,
                        res_molecular_weight_kg_mol_fp = fp_div (molecular_weight_fp default_inputs_fp) (Fin 1000)\<rparr>)"
    by (elim exE conjE)
  have pk': "pk = Fin 100"
    using pk unfolding default_inputs_fp_pressure by (simp only: sum.inject)
  have tk': "tk = Fin (2622555134571315 / 2 ^ 43)"
    using tk unfolding default_inputs_fp_temperature by (simp only: sum.inject)
  note r = res [unfolded pk' tk' default_inputs_fp_denominator default_inputs_fp_fields(5) fl_dflt_9 fl_dflt_10 fl_dflt_11 fl_dflt_12]
  then have run: "density_calculation_app_fp default_inputs_fp =
     Inr \<lparr>res_density_fp = Fin (5088948425588927 / 2 ^ 52),
          res_pressure_pa_fp = Fin 100000,
          res_temperature_k_fp = Fin (2622555134571315 / 2 ^ 43),
          res_molecular_weight_kg_mol_fp = Fin (4036666418004723 / 2 ^ 57)\<rparr>"
    by simp
  show ?thesis
    by (intro conjI default_inputs_fp_hyps run)
qed

text \<open>
  With 100 kPa, 28 g/mol and Z = T = 2^(-600) (in Kelvin) the units are supported, the
  four values are doubles, Z > 0 and T > 0, and yet the run returns no density: the
  product Z * 8.314 * T underflows to 0.0 and the division raises.
\<close>

theorem density_formula_binary64_counterexample:
  "pressure_unit_fp underflow_inputs \<in> set pressure_units \<and>
   temperature_unit_fp underflow_inputs \<in> set temp_units \<and>
   is_double (pressure_value_fp underflow_inputs) \<and>
   is_double (temperature_value_fp underflow_inputs) \<and>
   is_double (molecular_weight_fp underflow_inputs) \<and>
   is_double (compressibility_factor_fp underflow_inputs) \<and>
   fp_lt (Fin 0) (compressibility_factor_fp underflow_inputs) \<and>
   fp_lt (Fin 0) (temperature_value_fp underflow_inputs) \<and>
   density_calculation_app_fp underflow_inputs = Inl (ComputationError ZeroDivisionError)"
  by (intro conjI underflow_inputs_hyps underflow_inputs_doubles underflow_inputs_run)

subsection \<open>The denominator of the formula\<close>

text \<open>
  C5, as amended. Over binary64, for every supported temperature unit and every raw
  temperature value > 0 the conversion to Kelvin succeeds with a strictly positive
  result. With Z > 0 the run ends in a division by zero exactly when the pressure unit is
  supported and the rounded product Z * 8.314 * temperature_K is 0.0: the factors are
  positive, but their product can underflow.
\<close>

theorem denominator_binary64:
  assumes "temperature_unit_fp inp \<in> set temp_units"
    and "is_double (temperature_value_fp inp)"
    and "fp_lt (Fin 0) (temperature_value_fp inp)"
    and "fp_lt (Fin 0) (compressibility_factor_fp inp)"
  shows "\<exists>temperature_K.
           convert_temperature_fp (temperature_value_fp inp) (temperature_unit_fp inp) ''K'' =
             Inr temperature_K \<and>
           fp_lt (Fin 0) temperature_K \<and>
           (density_calculation_app_fp inp = Inl (ComputationError ZeroDivisionError) \<longleftrightarrow>
              pressure_unit_fp inp \<in> set pressure_units \<and>
              fp_mul (fp_mul (compressibility_factor_fp inp) (fp_round 8.314)) temperature_K = Fin 0)"
proof -
  from assms(1,2,3) obtain tk
    where tk: "convert_temperature_fp (temperature_value_fp inp) (temperature_unit_fp inp) ''K'' = Inr tk"
      and pos: "fp_lt (Fin 0) tk"
    by (rule kelvin_positive_fp)
  have iff: "density_calculation_app_fp inp = Inl (ComputationError ZeroDivisionError) \<longleftrightarrow>
              pressure_unit_fp inp \<in> set pressure_units \<and>
              fp_mul (fp_mul (compressibility_factor_fp inp) (fp_round 8.314)) tk = Fin 0"
  proof (cases "pressure_unit_fp inp \<in> set pressure_units")
    case True
    then obtain pk
      where pk: "convert_pressure_fp (pressure_value_fp inp) (pressure_unit_fp inp) ''kPa'' = Inr pk"
      by (rule pressure_known_to_kPa_fp)
    show ?thesis
      unfolding app_fp_after_guard [OF assms(4,3) pk tk] using True by simp
  next
    case False
    show ?thesis
      unfolding app_fp_unknown_pressure [OF assms(4,3) False] using False by simp
  qed
  show ?thesis
    by (intro exI [of _ tk] conjI tk pos iff)
qed

theorem denominator_binary64_witness:
  "temperature_unit_fp one_fahrenheit_fp \<in> set temp_units \<and>
   is_double (temperature_value_fp one_fahrenheit_fp) \<and>
   fp_lt (Fin 0) (temperature_value_fp one_fahrenheit_fp) \<and>
   fp_lt (Fin 0) (compressibility_factor_fp one_fahrenheit_fp) \<and>
   convert_temperature_fp (temperature_value_fp one_fahrenheit_fp) (temperature_unit_fp one_fahrenheit_fp) ''K'' =
     Inr (Fin (4502329080600621 / 2 ^ 44)) \<and>
   fp_lt (Fin 0) (Fin (4502329080600621 / 2 ^ 44)) \<and>
   density_calculation_app_fp one_fahrenheit_fp \<noteq> Inl (ComputationError ZeroDivisionError)"
proof -
  from denominator_binary64 [OF one_fahrenheit_fp_hyps(2) one_fahrenheit_fp_doubles(2) one_fahrenheit_fp_hyps(4) one_fahrenheit_fp_hyps(3)]
  obtain tk
    where tk: "convert_temperature_fp (temperature_value_fp one_fahrenheit_fp) (temperature_unit_fp one_fahrenheit_fp) ''K'' = Inr tk"
      and pos: "fp_lt (Fin 0) tk"
      and iff: "density_calculation_app_fp one_fahrenheit_fp = Inl (ComputationError ZeroDivisionError) \<longleftrightarrow>
                  pressure_unit_fp one_fahrenheit_fp \<in> set pressure_units \<and>
                  fp_mul (fp_mul (compressibility_factor_fp one_fahrenheit_fp) (fp_round 8.314)) tk = Fin 0"
    by (elim exE conjE)
  have tk': "tk = Fin (4502329080600621 / 2 ^ 44)"
    using tk unfolding one_fahrenheit_fp_temperature by (simp only: sum.inject)
  have ok: "density_calculation_app_fp one_fahrenheit_fp \<noteq> Inl (ComputationError ZeroDivisionError)"
    unfolding iff tk' one_fahrenheit_fp_denominator by simp
  show ?thesis
    by (intro conjI one_fahrenheit_fp_hyps(2) one_fahrenheit_fp_doubles(2) one_fahrenheit_fp_hyps(4) one_fahrenheit_fp_hyps(3)
          one_fahrenheit_fp_temperature pos [unfolded tk'] ok)
qed

text \<open>
  With Z = T = 2^(-600) (in Kelvin), Z and the Kelvin temperature are strictly positive
  doubles, and yet the denominator Z * 8.314 * T is 0.0 and the run ends in a division by
  zero.
\<close>

theorem denominator_binary64_counterexample:
  "temperature_unit_fp underflow_inputs \<in> set temp_units \<and>
   is_double (temperature_value_fp underflow_inputs) \<and>
   is_double (compressibility_factor_fp underflow_inputs) \<and>
   fp_lt (Fin 0) (temperature_value_fp underflow_inputs) \<and>
   fp_lt (Fin 0) (compressibility_factor_fp underflow_inputs) \<and>
   convert_temperature_fp (temperature_value_fp underflow_inputs) (temperature_unit_fp underflow_inputs) ''K'' =
     Inr (Fin (1 / 2 ^ 600)) \<and>
   fp_lt (Fin 0) (Fin (1 / 2 ^ 600)) \<and>
   fp_mul (fp_mul (compressibility_factor_fp underflow_inputs) (fp_round 8.314)) (Fin (1 / 2 ^ 600)) = Fin 0 \<and>
   density_calculation_app_fp underflow_inputs = Inl (ComputationError ZeroDivisionError)"
proof -
  have pos: "fp_lt (Fin 0) (Fin (1 / 2 ^ 600))"
    using underflow_inputs_hyps(4) unfolding underflow_inputs_fields .
  show ?thesis
    by (intro conjI underflow_inputs_hyps(2) underflow_inputs_doubles(2) underflow_inputs_doubles(4) underflow_inputs_hyps(4) underflow_inputs_hyps(3)
          underflow_inputs_temperature pos underflow_inputs_denominator underflow_inputs_run)
qed

subsection \<open>Molecular weight and pressure are not checked\<close>

text \<open>
  C10, as amended. Over binary64, with supported units, Z > 0 and a raw temperature
  value > 0, no check is applied to the molecular weight or to the pressure: the run is
  never InvalidInput, whatever their signs. It ends with ComputationError
  ZeroDivisionError (when Z * 8.314 * temperature_K underflows to 0.0) or it succeeds.
  When it succeeds and one of molecular weight and converted pressure is \<le> 0 while the
  other is \<ge> 0, the density is zero or negative (or NaN); when both are strictly
  negative, the density is zero or positive (or NaN).
\<close>

theorem no_positivity_check_binary64:
  assumes "pressure_unit_fp inp \<in> set pressure_units"
    and "temperature_unit_fp inp \<in> set temp_units"
    and "is_double (temperature_value_fp inp)"
    and "fp_lt (Fin 0) (compressibility_factor_fp inp)"
    and "fp_lt (Fin 0) (temperature_value_fp inp)"
  shows "\<exists>pressure_kPa.
           convert_pressure_fp (pressure_value_fp inp) (pressure_unit_fp inp) ''kPa'' = Inr pressure_kPa \<and>
           density_calculation_app_fp inp \<noteq> Inl InvalidInput \<and>
           (density_calculation_app_fp inp = Inl (ComputationError ZeroDivisionError) \<or>
            (\<exists>r. density_calculation_app_fp inp = Inr r \<and>
               ((fp_le (molecular_weight_fp inp) (Fin 0) \<and> fp_le (Fin 0) pressure_kPa \<or>
                 fp_le (Fin 0) (molecular_weight_fp inp) \<and> fp_le pressure_kPa (Fin 0)) \<longrightarrow>
                  res_density_fp r = NaN \<or> fp_le (res_density_fp r) (Fin 0)) \<and>
               (fp_lt (molecular_weight_fp inp) (Fin 0) \<and> fp_lt pressure_kPa (Fin 0) \<longrightarrow>
                  res_density_fp r = NaN \<or> fp_le (Fin 0) (res_density_fp r))))"
proof -
  from assms(1) obtain pk
    where pk: "convert_pressure_fp (pressure_value_fp inp) (pressure_unit_fp inp) ''kPa'' = Inr pk"
    by (rule pressure_known_to_kPa_fp)
  from assms(2,3,5) obtain tk
    where tk: "convert_temperature_fp (temperature_value_fp inp) (temperature_unit_fp inp) ''K'' = Inr tk"
      and pos: "fp_lt (Fin 0) tk"
    by (rule kelvin_positive_fp)
  define mw where "mw = molecular_weight_fp inp"
  define den where "den = fp_mul (fp_mul (compressibility_factor_fp inp) (fp_round 8.314)) tk"
  define num where "num = fp_mul (fp_mul pk (Fin 1000)) (fp_div mw (Fin 1000))"
  define r where "r = \<lparr>res_density_fp = fp_div num den,
                        res_pressure_pa_fp = fp_mul pk (Fin 1000),
                        res_temperature_k_fp = tk,
                        res_molecular_weight_kg_mol_fp = fp_div mw (Fin 1000)\<rparr>"
  have run: "density_calculation_app_fp inp =
               (if den = Fin 0 then Inl (ComputationError ZeroDivisionError) else Inr r)"
    unfolding den_def r_def num_def mw_def by (rule app_fp_after_guard [OF assms(4,5) pk tk])
  have thousand: "fp_nonneg_or_nan (Fin 1000)" by (simp add: fp_nonneg_or_nan_def)
  have den_sign: "fp_nonneg_or_nan den"
    unfolding den_def
    by (intro fp_mul_signs(1) fp_pos_nonneg assms(4) pos fp_round_nonneg) simp
  have dens: "res_density_fp r = fp_div num den" by (simp add: r_def)
  have nonpos: "(fp_le mw (Fin 0) \<and> fp_le (Fin 0) pk \<or> fp_le (Fin 0) mw \<and> fp_le pk (Fin 0)) \<longrightarrow>
                  res_density_fp r = NaN \<or> fp_le (res_density_fp r) (Fin 0)"
  proof
    assume "fp_le mw (Fin 0) \<and> fp_le (Fin 0) pk \<or> fp_le (Fin 0) mw \<and> fp_le pk (Fin 0)"
    then have "fp_nonpos_or_nan num"
    proof
      assume a: "fp_le mw (Fin 0) \<and> fp_le (Fin 0) pk"
      show ?thesis unfolding num_def
        by (intro fp_mul_signs(2) fp_mul_signs(1) fp_div_signs(2) thousand
              fp_le_nonneg fp_le_nonpos conjunct1 [OF a] conjunct2 [OF a])
    next
      assume a: "fp_le (Fin 0) mw \<and> fp_le pk (Fin 0)"
      show ?thesis unfolding num_def
        by (intro fp_mul_signs(3) fp_div_signs(1) thousand
              fp_le_nonneg fp_le_nonpos conjunct1 [OF a] conjunct2 [OF a])
    qed
    then have "fp_nonpos_or_nan (fp_div num den)"
      using den_sign by (rule fp_div_signs(2))
    then show "res_density_fp r = NaN \<or> fp_le (res_density_fp r) (Fin 0)"
      by (simp add: dens fp_nonpos_or_nan_def)
  qed
  have nonneg: "fp_lt mw (Fin 0) \<and> fp_lt pk (Fin 0) \<longrightarrow>
                  res_density_fp r = NaN \<or> fp_le (Fin 0) (res_density_fp r)"
  proof
    assume a: "fp_lt mw (Fin 0) \<and> fp_lt pk (Fin 0)"
    have "fp_nonneg_or_nan num" unfolding num_def
      by (intro fp_mul_signs(4) fp_mul_signs(3) fp_div_signs(2) thousand
            fp_lt_nonpos conjunct1 [OF a] conjunct2 [OF a])
    then have "fp_nonneg_or_nan (fp_div num den)"
      using den_sign by (rule fp_div_signs(1))
    then show "res_density_fp r = NaN \<or> fp_le (Fin 0) (res_density_fp r)"
      by (simp add: dens fp_nonneg_or_nan_def)
  qed
  have not_invalid: "density_calculation_app_fp inp \<noteq> Inl InvalidInput"
    unfolding run by simp
  have outcome: "density_calculation_app_fp inp = Inl (ComputationError ZeroDivisionError) \<or>
            (\<exists>r. density_calculation_app_fp inp = Inr r \<and>
               ((fp_le mw (Fin 0) \<and> fp_le (Fin 0) pk \<or> fp_le (Fin 0) mw \<and> fp_le pk (Fin 0)) \<longrightarrow>
                  res_density_fp r = NaN \<or> fp_le (res_density_fp r) (Fin 0)) \<and>
               (fp_lt mw (Fin 0) \<and> fp_lt pk (Fin 0) \<longrightarrow>
                  res_density_fp r = NaN \<or> fp_le (Fin 0) (res_density_fp r)))"
  proof (cases "den = Fin 0")
    case True
    then show ?thesis unfolding run by simp
  next
    case False
    then have "density_calculation_app_fp inp = Inr r" unfolding run by simp
    then show ?thesis
      by (intro disjI2 exI [of _ r] conjI nonpos nonneg)
  qed
  show ?thesis
    by (intro exI [of _ pk] conjI pk not_invalid outcome [unfolded mw_def])
qed

theorem no_positivity_check_binary64_witness:
  "pressure_unit_fp negative_weight_fp \<in> set pressure_units \<and>
   temperature_unit_fp negative_weight_fp \<in> set temp_units \<and>
   is_double (temperature_value_fp negative_weight_fp) \<and>
   fp_lt (Fin 0) (compressibility_factor_fp negative_weight_fp) \<and>
   fp_lt (Fin 0) (temperature_value_fp negative_weight_fp) \<and>
   fp_le (molecular_weight_fp negative_weight_fp) (Fin 0) \<and>
   (\<exists>r. density_calculation_app_fp negative_weight_fp = Inr r \<and> fp_le (res_density_fp r) (Fin 0)) \<and>
   pressure_unit_fp negative_pressure_and_weight_fp \<in> set pressure_units \<and>
   temperature_unit_fp negative_pressure_and_weight_fp \<in> set temp_units \<and>
   is_double (temperature_value_fp negative_pressure_and_weight_fp) \<and>
   fp_lt (Fin 0) (compressibility_factor_fp negative_pressure_and_weight_fp) \<and>
   fp_lt (Fin 0) (temperature_value_fp negative_pressure_and_weight_fp) \<and>
   fp_lt (molecular_weight_fp negative_pressure_and_weight_fp) (Fin 0) \<and>
   (\<exists>r. density_calculation_app_fp negative_pressure_and_weight_fp = Inr r \<and> fp_le (Fin 0) (res_density_fp r))"
proof -
  from no_positivity_check_binary64
         [OF negative_weight_fp_hyps(1,2) negative_weight_fp_doubles(2) negative_weight_fp_hyps(3,4)]
  obtain pk where pk: "convert_pressure_fp (pressure_value_fp negative_weight_fp) (pressure_unit_fp negative_weight_fp) ''kPa'' = Inr pk"
      and alt: "density_calculation_app_fp negative_weight_fp = Inl (ComputationError ZeroDivisionError) \<or>
            (\<exists>r. density_calculation_app_fp negative_weight_fp = Inr r \<and>
               ((fp_le (molecular_weight_fp negative_weight_fp) (Fin 0) \<and> fp_le (Fin 0) pk \<or>
                 fp_le (Fin 0) (molecular_weight_fp negative_weight_fp) \<and> fp_le pk (Fin 0)) \<longrightarrow>
                  res_density_fp r = NaN \<or> fp_le (res_density_fp r) (Fin 0)) \<and>
               (fp_lt (molecular_weight_fp negative_weight_fp) (Fin 0) \<and> fp_lt pk (Fin 0) \<longrightarrow>
                  res_density_fp r = NaN \<or> fp_le (Fin 0) (res_density_fp r)))"
    by (elim exE conjE)
  have pk': "pk = Fin 100"
    using pk unfolding negative_weight_fp_pressure by (simp only: sum.inject)
  have mw: "fp_le (molecular_weight_fp negative_weight_fp) (Fin 0)"
    unfolding negative_weight_fp_fields by simp
  from alt obtain r
    where r: "density_calculation_app_fp negative_weight_fp = Inr r"
      and imp: "(fp_le (molecular_weight_fp negative_weight_fp) (Fin 0) \<and> fp_le (Fin 0) pk \<or>
                 fp_le (Fin 0) (molecular_weight_fp negative_weight_fp) \<and> fp_le pk (Fin 0)) \<longrightarrow>
                  res_density_fp r = NaN \<or> fp_le (res_density_fp r) (Fin 0)"
    unfolding negative_weight_fp_run by (elim disjE exE conjE) simp_all
  have "fp_le (Fin 0) pk" unfolding pk' by simp
  with mw imp have d: "res_density_fp r = NaN \<or> fp_le (res_density_fp r) (Fin 0)"
    by simp
  have "res_density_fp r \<noteq> NaN"
    using r unfolding negative_weight_fp_run by auto
  with d have le: "fp_le (res_density_fp r) (Fin 0)" by simp
  have a: "\<exists>r. density_calculation_app_fp negative_weight_fp = Inr r \<and> fp_le (res_density_fp r) (Fin 0)"
    by (intro exI [of _ r] conjI r le)
  from no_positivity_check_binary64
         [OF negative_pressure_and_weight_fp_hyps(1,2) negative_pressure_and_weight_fp_doubles(2) negative_pressure_and_weight_fp_hyps(3,4)]
  obtain pk2 where pk2: "convert_pressure_fp (pressure_value_fp negative_pressure_and_weight_fp) (pressure_unit_fp negative_pressure_and_weight_fp) ''kPa'' = Inr pk2"
      and alt2: "density_calculation_app_fp negative_pressure_and_weight_fp = Inl (ComputationError ZeroDivisionError) \<or>
            (\<exists>r. density_calculation_app_fp negative_pressure_and_weight_fp = Inr r \<and>
               ((fp_le (molecular_weight_fp negative_pressure_and_weight_fp) (Fin 0) \<and> fp_le (Fin 0) pk2 \<or>
                 fp_le (Fin 0) (molecular_weight_fp negative_pressure_and_weight_fp) \<and> fp_le pk2 (Fin 0)) \<longrightarrow>
                  res_density_fp r = NaN \<or> fp_le (res_density_fp r) (Fin 0)) \<and>
               (fp_lt (molecular_weight_fp negative_pressure_and_weight_fp) (Fin 0) \<and> fp_lt pk2 (Fin 0) \<longrightarrow>
                  res_density_fp r = NaN \<or> fp_le (Fin 0) (res_density_fp r)))"
    by (elim exE conjE)
  have pk2': "pk2 = Fin (- 6943635831730995 / 2 ^ 46)"
    using pk2 unfolding negative_pressure_and_weight_fp_pressure by (simp only: sum.inject)
  have mw2: "fp_lt (molecular_weight_fp negative_pressure_and_weight_fp) (Fin 0)"
    unfolding negative_pressure_and_weight_fp_fields by simp
  from alt2 obtain r2
    where r2: "density_calculation_app_fp negative_pressure_and_weight_fp = Inr r2"
      and imp2: "fp_lt (molecular_weight_fp negative_pressure_and_weight_fp) (Fin 0) \<and> fp_lt pk2 (Fin 0) \<longrightarrow>
                  res_density_fp r2 = NaN \<or> fp_le (Fin 0) (res_density_fp r2)"
    unfolding negative_pressure_and_weight_fp_run by (elim disjE exE conjE) simp_all
  have "fp_lt pk2 (Fin 0)" unfolding pk2' by simp
  with mw2 imp2 have d2: "res_density_fp r2 = NaN \<or> fp_le (Fin 0) (res_density_fp r2)"
    by simp
  have "res_density_fp r2 \<noteq> NaN"
    using r2 unfolding negative_pressure_and_weight_fp_run by auto
  with d2 have ge: "fp_le (Fin 0) (res_density_fp r2)" by simp
  have b: "\<exists>r. density_calculation_app_fp negative_pressure_and_weight_fp = Inr r \<and> fp_le (Fin 0) (res_density_fp r)"
    by (intro exI [of _ r2] conjI r2 ge)
  show ?thesis
    by (intro conjI negative_weight_fp_hyps negative_weight_fp_doubles(2) mw a negative_pressure_and_weight_fp_hyps negative_pressure_and_weight_fp_doubles(2) mw2 b)
qed

text \<open>
  With a pressure of -2 barg (-98.675 kPa) and a molecular weight of -28 g/mol at 300 K
  and Z = 1, the run succeeds with a strictly positive density (about 1.1077), though the
  molecular weight is \<le> 0 and the converted pressure is negative.
\<close>

theorem no_positivity_check_binary64_counterexample:
  "pressure_unit_fp negative_pressure_and_weight_fp \<in> set pressure_units \<and>
   temperature_unit_fp negative_pressure_and_weight_fp \<in> set temp_units \<and>
   is_double (pressure_value_fp negative_pressure_and_weight_fp) \<and>
   is_double (temperature_value_fp negative_pressure_and_weight_fp) \<and>
   is_double (molecular_weight_fp negative_pressure_and_weight_fp) \<and>
   is_double (compressibility_factor_fp negative_pressure_and_weight_fp) \<and>
   fp_lt (Fin 0) (compressibility_factor_fp negative_pressure_and_weight_fp) \<and>
   fp_lt (Fin 0) (temperature_value_fp negative_pressure_and_weight_fp) \<and>
   fp_le (molecular_weight_fp negative_pressure_and_weight_fp) (Fin 0) \<and>
   convert_pressure_fp (pressure_value_fp negative_pressure_and_weight_fp) (pressure_unit_fp negative_pressure_and_weight_fp) ''kPa'' =
     Inr (Fin (- 6943635831730995 / 2 ^ 46)) \<and>
   fp_lt (Fin (- 6943635831730995 / 2 ^ 46)) (Fin 0) \<and>
   density_calculation_app_fp negative_pressure_and_weight_fp =
     Inr \<lparr>res_density_fp = Fin (4988772115492721 / 2 ^ 52),
          res_pressure_pa_fp = Fin (- 98675),
          res_temperature_k_fp = Fin 300,
          res_molecular_weight_kg_mol_fp = Fin (- 8070450532247929 / 2 ^ 58)\<rparr> \<and>
   \<not> fp_le (Fin (4988772115492721 / 2 ^ 52)) (Fin 0)"
proof -
  have mw: "fp_le (molecular_weight_fp negative_pressure_and_weight_fp) (Fin 0)"
    unfolding negative_pressure_and_weight_fp_fields by simp
  have neg: "fp_lt (Fin (- 6943635831730995 / 2 ^ 46)) (Fin 0)" by simp
  have pos: "\<not> fp_le (Fin (4988772115492721 / 2 ^ 52)) (Fin 0)" by simp
  show ?thesis
    by (intro conjI negative_pressure_and_weight_fp_hyps negative_pressure_and_weight_fp_doubles mw negative_pressure_and_weight_fp_pressure neg negative_pressure_and_weight_fp_run pos)
qed

subsection \<open>Round trips over binary64\<close>










end
